theory Spec2Isabelle
  imports Main "HOL-Library.Log_Nat"
begin

section \<open>Supervision helper: the retry wrapper, the generation client and the pipeline\<close>

text \<open>
  The development embeds the service module \<^verbatim>\<open>src/services/geminiService.ts\<close> (the
  retry wrapper \<^verbatim>\<open>withRetry\<close> and the five generation functions built on it) and the
  React component \<^verbatim>\<open>App\<close>, whose event handlers drive the four-stage pipeline.

  Conventions of the embedding:
  \<^item> A JavaScript string is a \<^typ>\<open>string\<close> holding its UTF-8 bytes; the only operations
    the code applies to strings (concatenation, \<^verbatim>\<open>includes\<close> with an ASCII needle,
    emptiness, \<^verbatim>\<open>trim\<close>, \<^verbatim>\<open>JSON.parse\<close>) are defined on that view.
  \<^item> An \<^verbatim>\<open>await\<close> is a call that takes the state of the outside world and returns
    the outcome with the new state; a rejected promise is \<^term>\<open>Inl\<close> of the value thrown.
    The handlers are run one at a time (the component disables its buttons while a
    call is pending), so each is a function from state to state.
  \<^item> What the JavaScript engine decides (the text of its error messages, how it prints a
    number or a built-in function) is a parameter, the record \<open>platform\<close>.
\<close>

subsection \<open>Numbers: binary64 rounding of the back-off delay\<close>

text \<open>
  The delay \<^verbatim>\<open>Math.pow(2, i) * 2000 + Math.random() * 1000\<close> is computed in IEEE-754
  binary64. A finite non-negative double is the rational it denotes. \<open>fl\<close> rounds a
  non-negative rational to 53 significant bits, to nearest, ties to even; \<open>to_double\<close>
  adds the overflow to \<open>Infinity\<close>. Gradual underflow is not modelled: the operands below
  are products of a double with an integer, which are exact in the subnormal range.
\<close>

definition rne :: "rat \<Rightarrow> int" where
  "rne x = (let f = \<lfloor>x\<rfloor>; d = x - of_int f in
            if d < 1 / 2 then f else if 1 / 2 < d then f + 1
            else if even f then f else f + 1)"

text \<open>For \<open>0 < x\<close>, \<open>binade x\<close> is the exponent \<open>e\<close> with \<open>2\<^sup>e \<le> x < 2\<^sup>e\<^sup>+\<^sup>1\<close>.\<close>

definition binade :: "rat \<Rightarrow> int" where
  "binade x = (case quotient_of x of (a, b) \<Rightarrow>
     let c = bitlen a - bitlen b in if 2 powi c \<le> x then c else c - 1)"

definition fl :: "rat \<Rightarrow> rat" where
  "fl x = (if x \<le> 0 then 0
           else let q = 2 powi (binade x - 52) in of_int (rne (x / q)) * q)"

datatype js_number = Finite rat | Infinity

definition overflow_threshold :: rat where
  "overflow_threshold = 2 ^ 1024"

definition to_double :: "rat \<Rightarrow> js_number" where
  "to_double x = (let y = fl x in if y < overflow_threshold then Finite y else Infinity)"

definition Math_pow2 :: "nat \<Rightarrow> js_number" where
  "Math_pow2 i = to_double (2 ^ i)"

text \<open>Multiplication by a positive constant and addition, on non-negative operands.\<close>

fun js_times :: "js_number \<Rightarrow> rat \<Rightarrow> js_number" where
  "js_times (Finite a) b = to_double (a * b)"
| "js_times Infinity b = Infinity"

fun js_plus :: "js_number \<Rightarrow> js_number \<Rightarrow> js_number" where
  "js_plus (Finite a) (Finite b) = to_double (a + b)"
| "js_plus _ _ = Infinity"

text \<open>\<^verbatim>\<open>Math.round\<close>: the nearest integer, a tie going up.\<close>

fun Math_round :: "js_number \<Rightarrow> js_number" where
  "Math_round (Finite d) = Finite (of_int \<lfloor>d + 1 / 2\<rfloor>)"
| "Math_round Infinity = Infinity"

text \<open>
  \<^verbatim>\<open>const delay = Math.pow(2, i) * 2000 + Math.random() * 1000;\<close>
  with \<open>r\<close> the value \<^verbatim>\<open>Math.random()\<close> returned.
\<close>

definition retry_delay :: "nat \<Rightarrow> rat \<Rightarrow> js_number" where
  "retry_delay i r = js_plus (js_times (Math_pow2 i) 2000) (js_times (Finite r) 1000)"

subsection \<open>JavaScript values\<close>

text \<open>
  The values \<^verbatim>\<open>JSON.parse\<close> returns, and \<^verbatim>\<open>undefined\<close>. A number keeps its lexeme: the
  double it denotes is the engine's business. An object lists its own properties, a key
  once; the order of enumeration is not modelled. Such an object has no method of its
  own: a property of it is a value of this type, never a function.
\<close>

datatype js_value =
    JUndefined
  | JNull
  | JBool bool
  | JNumber string
  | JString string
  | JArray "js_value list"
  | JObject "(string \<times> js_value) list"

subsection \<open>What the engine decides\<close>

text \<open>
  \<open>GEMINI_API_KEY\<close> is \<^verbatim>\<open>process.env.GEMINI_API_KEY\<close>. \<open>number_to_string\<close> and
  \<open>number_is_zero\<close> are \<^verbatim>\<open>String(x)\<close> and \<^verbatim>\<open>x === 0\<close> for the double a JSON number
  denotes. The four messages are those of the \<^verbatim>\<open>SyntaxError\<close> that \<^verbatim>\<open>JSON.parse\<close>
  throws on a text, of the \<^verbatim>\<open>TypeError\<close> for reading a property of a value that is
  \<^verbatim>\<open>null\<close> or \<^verbatim>\<open>undefined\<close>, of the \<^verbatim>\<open>TypeError\<close> for an object with no
  primitive value, and of the \<^verbatim>\<open>TypeError\<close> for calling what is no function (given the
  text of the callee and the argument of the call).
  \<open>native_function_text\<close> is how a built-in function prints.
\<close>

record platform =
  GEMINI_API_KEY :: "string option"
  number_to_string :: "string \<Rightarrow> string"
  number_is_zero :: "string \<Rightarrow> bool"
  json_error_message :: "string \<Rightarrow> string"
  property_error_message :: "js_value \<Rightarrow> string \<Rightarrow> string"
  primitive_error_message :: string
  not_a_function_message :: "string \<Rightarrow> string \<Rightarrow> string"
  native_function_text :: "string \<Rightarrow> string"

subsection \<open>Thrown values and their classification\<close>

text \<open>
  A thrown value is \<^verbatim>\<open>undefined\<close>, an error object of the provider's client, or one of
  the engine's own errors, of which only the message matters. Of an error object the
  code reads three properties. \<^verbatim>\<open>status\<close> and \<^verbatim>\<open>code\<close> are only compared with the
  number 429 by \<^verbatim>\<open>===\<close>, which raises nothing: each is kept when it is an integer and is
  \<open>None\<close> otherwise. \<^verbatim>\<open>message\<close> is any value that is data (a string as a rule, but also
  a number, an array, an object without methods and so on), \<^verbatim>\<open>undefined\<close> when the
  object has none: the code calls a method of it.
\<close>

datatype thrown =
    Undefined
  | ApiError "int option" "int option" js_value
  | SyntaxError string
  | TypeError string

fun status_of :: "thrown \<Rightarrow> int option" where
  "status_of (ApiError s c m) = s"
| "status_of _ = None"

fun code_of :: "thrown \<Rightarrow> int option" where
  "code_of (ApiError s c m) = c"
| "code_of _ = None"

fun message_of :: "thrown \<Rightarrow> js_value" where
  "message_of Undefined = JUndefined"
| "message_of (ApiError s c m) = m"
| "message_of (SyntaxError m) = JString m"
| "message_of (TypeError m) = JString m"

fun starts_with :: "string \<Rightarrow> string \<Rightarrow> bool" where
  "starts_with s [] = True"
| "starts_with [] (p # ps) = False"
| "starts_with (c # cs) (p # ps) = (c = p \<and> starts_with cs ps)"

text \<open>\<^verbatim>\<open>String.prototype.includes\<close>.\<close>

fun str_includes :: "string \<Rightarrow> string \<Rightarrow> bool" where
  "str_includes [] p = starts_with [] p"
| "str_includes (c # cs) p = (starts_with (c # cs) p \<or> str_includes cs p)"

text \<open>
  \<^verbatim>\<open>m?.includes(p)\<close> for a value \<open>m\<close> and a string \<open>p\<close>, read as a condition. The
  optional chain stops at \<^verbatim>\<open>undefined\<close> and \<^verbatim>\<open>null\<close>, which are falsy. A string is
  searched for \<open>p\<close>; an array has \<^verbatim>\<open>Array.prototype.includes\<close>, which looks for an
  element that is the string \<open>p\<close>. A boolean, a number or an object has no function
  \<^verbatim>\<open>includes\<close>, and the call throws a \<^verbatim>\<open>TypeError\<close>. \<open>callee\<close> is the text of the
  expression called, for the message of that error.
\<close>

fun value_includes :: "platform \<Rightarrow> string \<Rightarrow> js_value \<Rightarrow> string \<Rightarrow> thrown + bool" where
  "value_includes P callee JUndefined p = Inr False"
| "value_includes P callee JNull p = Inr False"
| "value_includes P callee (JString m) p = Inr (str_includes m p)"
| "value_includes P callee (JArray vs) p = Inr (JString p \<in> set vs)"
| "value_includes P callee (JBool b) p = Inl (TypeError (not_a_function_message P callee p))"
| "value_includes P callee (JNumber n) p = Inl (TypeError (not_a_function_message P callee p))"
| "value_includes P callee (JObject ms) p = Inl (TypeError (not_a_function_message P callee p))"

text \<open>\<^verbatim>\<open>error?.message?.includes(p)\<close>, for the variable named \<open>var\<close>.\<close>

definition message_includes :: "platform \<Rightarrow> string \<Rightarrow> thrown \<Rightarrow> string \<Rightarrow> thrown + bool" where
  "message_includes P var err p =
     value_includes P (var @ ''?.message?.includes'') (message_of err) p"

text \<open>
  \<^verbatim>\<open>error?.status === 429 || error?.code === 429 || error?.message?.includes("429")\<close>
  \<^verbatim>\<open>|| error?.message?.includes("RESOURCE_EXHAUSTED")\<close>, evaluated from the left: an
  operand is evaluated only when those before it are falsy, and an operand that throws
  ends the evaluation.
\<close>

definition isRateLimit :: "platform \<Rightarrow> thrown \<Rightarrow> thrown + bool" where
  "isRateLimit P err =
     (if status_of err = Some 429 then Inr True
      else if code_of err = Some 429 then Inr True
      else case message_includes P ''error'' err ''429'' of
             Inl raised \<Rightarrow> Inl raised
           | Inr found \<Rightarrow>
               if found then Inr True
               else message_includes P ''error'' err ''RESOURCE_EXHAUSTED'')"

subsection \<open>The retry wrapper\<close>

text \<open>
  What the wrapper does besides returning is kept in a trace: each call of the operation,
  each \<^verbatim>\<open>console.warn\<close> (the rounded delay, the attempt number, the limit) and each
  \<^verbatim>\<open>setTimeout\<close> it awaits, with the delay it asked for. \<open>random_source\<close> lists the values
  \<^verbatim>\<open>Math.random()\<close> returns, \<open>drawn\<close> counts those used.
\<close>

datatype event = Invoke | Warn js_number nat nat | Sleep js_number

record 'w env =
  world :: 'w
  random_source :: "nat \<Rightarrow> rat"
  drawn :: nat
  trace :: "event list"

type_synonym ('w, 'a) operation = "'w \<Rightarrow> (thrown + 'a) \<times> 'w"

text \<open>
  The loop of \<^verbatim>\<open>withRetry\<close>, from attempt \<open>i\<close> on. The \<^verbatim>\<open>catch\<close> block classifies the
  error before it looks at the attempt number; when the classification itself throws,
  that error leaves the loop and is what the wrapper raises. \<^verbatim>\<open>throw lastError\<close> after
  the loop is reached only when the loop makes no attempt.
\<close>

function withRetry_loop ::
  "platform \<Rightarrow> ('w, 'a) operation \<Rightarrow> nat \<Rightarrow> nat \<Rightarrow> thrown \<Rightarrow> 'w env \<Rightarrow> (thrown + 'a) \<times> 'w env"
where
  "withRetry_loop P fn maxRetries i lastError env =
     (if i < maxRetries then
        (case fn (world env) of (result, w') \<Rightarrow>
           let env1 = env\<lparr>world := w', trace := trace env @ [Invoke]\<rparr> in
           (case result of
              Inr v \<Rightarrow> (Inr v, env1)
            | Inl err \<Rightarrow>
                (case isRateLimit P err of
                   Inl raised \<Rightarrow> (Inl raised, env1)
                 | Inr limited \<Rightarrow>
                     if limited \<and> i < maxRetries - 1 then
                       let delay = retry_delay i (random_source env1 (drawn env1));
                           env2 = env1\<lparr>drawn := drawn env1 + 1,
                                    trace := trace env1 @ [Warn (Math_round delay) (i + 1) maxRetries]\<rparr>;
                           env3 = env2\<lparr>trace := trace env2 @ [Sleep delay]\<rparr>
                       in withRetry_loop P fn maxRetries (i + 1) err env3
                     else (Inl err, env1))))
      else (Inl lastError, env))"
  by pat_completeness auto
termination
  by (relation "measure (\<lambda>(P, fn, maxRetries, i, lastError, env). maxRetries - i)") auto

declare withRetry_loop.simps [simp del]

definition withRetry ::
  "platform \<Rightarrow> ('w, 'a) operation \<Rightarrow> nat \<Rightarrow> 'w env \<Rightarrow> (thrown + 'a) \<times> 'w env" where
  "withRetry P fn maxRetries env = withRetry_loop P fn maxRetries 0 Undefined env"

text \<open>
  Vocabulary for the claims: the world before the \<open>k\<close>-th call of the operation when
  every earlier call was made, the outcome of that call, the number of calls in a trace,
  and the events of \<open>m\<close> failed attempts that were retried, from attempt \<open>i\<close> on.
\<close>

primrec world_after :: "('w, 'a) operation \<Rightarrow> nat \<Rightarrow> 'w \<Rightarrow> 'w" where
  "world_after fn 0 w = w"
| "world_after fn (Suc k) w = world_after fn k (snd (fn w))"

definition outcome :: "('w, 'a) operation \<Rightarrow> 'w \<Rightarrow> nat \<Rightarrow> thrown + 'a" where
  "outcome fn w k = fst (fn (world_after fn k w))"

fun rate_limited :: "platform \<Rightarrow> thrown + 'a \<Rightarrow> bool" where
  "rate_limited P (Inl e) = (isRateLimit P e = Inr True)"
| "rate_limited P (Inr v) = False"

definition invocations :: "event list \<Rightarrow> nat" where
  "invocations tr = length (filter (\<lambda>e. e = Invoke) tr)"

fun retry_events :: "nat \<Rightarrow> (nat \<Rightarrow> rat) \<Rightarrow> nat \<Rightarrow> nat \<Rightarrow> nat \<Rightarrow> event list" where
  "retry_events maxRetries rnd i d 0 = []"
| "retry_events maxRetries rnd i d (Suc m) =
     (let delay = retry_delay i (rnd d) in
      [Invoke, Warn (Math_round delay) (i + 1) maxRetries, Sleep delay])
     @ retry_events maxRetries rnd (Suc i) (Suc d) m"

definition after_failure :: "nat \<Rightarrow> nat \<Rightarrow> 'w \<Rightarrow> 'w env \<Rightarrow> 'w env" where
  "after_failure maxRetries i w' env =
     env\<lparr>world := w', drawn := drawn env + 1,
         trace := trace env @ retry_events maxRetries (random_source env) i (drawn env) 1\<rparr>"

subsection \<open>Strings: \<^verbatim>\<open>trim\<close> and the falsy empty string\<close>

text \<open>
  The code points \<^verbatim>\<open>String.prototype.trim\<close> removes (ECMAScript WhiteSpace and
  LineTerminator), in UTF-8: U+0009 to U+000D, U+0020, U+00A0, U+1680, U+2000 to U+200A,
  U+2028, U+2029, U+202F, U+205F, U+3000 and U+FEFF.
\<close>

definition white_space :: "string list" where
  "white_space =
     [[CHR 0x09], [CHR 0x0A], [CHR 0x0B], [CHR 0x0C], [CHR 0x0D], [CHR 0x20],
      [CHR 0xC2, CHR 0xA0], [CHR 0xE1, CHR 0x9A, CHR 0x80]]
     @ map (\<lambda>b. [CHR 0xE2, CHR 0x80, char_of b]) [0x80 ..< 0x8B :: nat]
     @ [[CHR 0xE2, CHR 0x80, CHR 0xA8], [CHR 0xE2, CHR 0x80, CHR 0xA9],
        [CHR 0xE2, CHR 0x80, CHR 0xAF], [CHR 0xE2, CHR 0x81, CHR 0x9F],
        [CHR 0xE3, CHR 0x80, CHR 0x80], [CHR 0xEF, CHR 0xBB, CHR 0xBF]]"

text \<open>\<open>strip ws s\<close> removes from the front of \<open>s\<close> every leading member of \<open>ws\<close>.\<close>

fun strip :: "string list \<Rightarrow> string \<Rightarrow> string" where
  "strip ws [] = []"
| "strip ws (c # cs) =
     (case find (starts_with (c # cs)) ws of
        None \<Rightarrow> c # cs
      | Some w \<Rightarrow> strip ws (drop (length w - 1) cs))"

definition trimStart :: "string \<Rightarrow> string" where
  "trimStart s = strip white_space s"

definition trimEnd :: "string \<Rightarrow> string" where
  "trimEnd s = rev (strip (map rev white_space) (rev s))"

definition trim :: "string \<Rightarrow> string" where
  "trim s = trimEnd (trimStart s)"

text \<open>A string that is empty or made of white space only.\<close>

fun whitespace_only :: "string \<Rightarrow> bool" where
  "whitespace_only [] = True"
| "whitespace_only (c # cs) =
     (case find (starts_with (c # cs)) white_space of
        None \<Rightarrow> False
      | Some w \<Rightarrow> whitespace_only (drop (length w - 1) cs))"

text \<open>\<^verbatim>\<open>x || d\<close> for a string \<open>x\<close> that may be \<^verbatim>\<open>undefined\<close> or \<^verbatim>\<open>null\<close>, and its condition.\<close>

fun truthy_text :: "string option \<Rightarrow> bool" where
  "truthy_text None = False"
| "truthy_text (Some t) = (t \<noteq> [])"

definition or_else :: "string option \<Rightarrow> string \<Rightarrow> string" where
  "or_else x d = (case x of None \<Rightarrow> d | Some t \<Rightarrow> if t = [] then d else t)"

subsection \<open>\<^verbatim>\<open>JSON.parse\<close>\<close>

text \<open>
  The parser is a lexer followed by a machine that reads one token at a time and keeps
  the containers that are open. A key that comes again in an object replaces the value
  of the first, in place.
\<close>

fun set_member :: "string \<Rightarrow> js_value \<Rightarrow> (string \<times> js_value) list \<Rightarrow> (string \<times> js_value) list" where
  "set_member k v [] = [(k, v)]"
| "set_member k v ((k', v') # ms) = (if k = k' then (k, v) # ms else (k', v') # set_member k v ms)"

datatype token =
    LBrace | RBrace | LBracket | RBracket | Colon | Comma
  | TString string | TNumber string | TTrue | TFalse | TNull

definition is_digit :: "char \<Rightarrow> bool" where
  "is_digit c \<longleftrightarrow> c \<in> set ''0123456789''"

definition hex_value :: "char \<Rightarrow> nat option" where
  "hex_value c = map_of (zip ''0123456789abcdef'' [0..<16] @ zip ''ABCDEF'' [10..<16]) c"

definition hex4 :: "char \<Rightarrow> char \<Rightarrow> char \<Rightarrow> char \<Rightarrow> nat option" where
  "hex4 a b c d =
     (case (hex_value a, hex_value b, hex_value c, hex_value d) of
        (Some w, Some x, Some y, Some z) \<Rightarrow> Some (((w * 16 + x) * 16 + y) * 16 + z)
      | _ \<Rightarrow> None)"

definition utf8 :: "nat \<Rightarrow> string" where
  "utf8 n =
     (if n < 0x80 then [char_of n]
      else if n < 0x800 then [char_of (0xC0 + n div 64), char_of (0x80 + n mod 64)]
      else if n < 0x10000 then
        [char_of (0xE0 + n div 4096), char_of (0x80 + n div 64 mod 64), char_of (0x80 + n mod 64)]
      else
        [char_of (0xF0 + n div 262144), char_of (0x80 + n div 4096 mod 64),
         char_of (0x80 + n div 64 mod 64), char_of (0x80 + n mod 64)])"

definition simple_escape :: "char \<Rightarrow> char option" where
  "simple_escape c =
     map_of [(CHR 0x22, CHR 0x22), (CHR 0x5C, CHR 0x5C), (CHR ''/'', CHR ''/''),
             (CHR ''b'', CHR 0x08), (CHR ''f'', CHR 0x0C), (CHR ''n'', CHR 0x0A),
             (CHR ''r'', CHR 0x0D), (CHR ''t'', CHR 0x09)] c"

fun low_surrogate :: "string \<Rightarrow> nat option" where
  "low_surrogate (b # u # h1 # h2 # h3 # h4 # rest) =
     (if b = CHR 0x5C \<and> u = CHR ''u'' then
        (case hex4 h1 h2 h3 h4 of
           Some lo \<Rightarrow> if 0xDC00 \<le> lo \<and> lo \<le> 0xDFFF then Some lo else None
         | None \<Rightarrow> None)
      else None)"
| "low_surrogate _ = None"

text \<open>
  The text after a backslash: the bytes the escape stands for and the number of
  characters it takes. A surrogate pair is one code point; a lone surrogate is encoded
  as it stands.
\<close>

definition decode_escape :: "string \<Rightarrow> (string \<times> nat) option" where
  "decode_escape cs =
     (case cs of
        [] \<Rightarrow> None
      | e # rest \<Rightarrow>
          if e = CHR ''u'' then
            (case rest of
               h1 # h2 # h3 # h4 # rest' \<Rightarrow>
                 (case hex4 h1 h2 h3 h4 of
                    None \<Rightarrow> None
                  | Some hi \<Rightarrow>
                      if 0xD800 \<le> hi \<and> hi \<le> 0xDBFF then
                        (case low_surrogate rest' of
                           Some lo \<Rightarrow>
                             Some (utf8 (0x10000 + (hi - 0xD800) * 1024 + (lo - 0xDC00)), 11)
                         | None \<Rightarrow> Some (utf8 hi, 5))
                      else Some (utf8 hi, 5))
             | _ \<Rightarrow> None)
          else map_option (\<lambda>x. ([x], 1)) (simple_escape e))"

text \<open>
  The body of a string literal, after its opening quote: the string, and the number of
  characters read up to and including the closing quote.
\<close>

function lex_string :: "string \<Rightarrow> nat \<Rightarrow> string \<Rightarrow> (string \<times> nat) option" where
  "lex_string acc n [] = None"
| "lex_string acc n (c # cs) =
     (if c = CHR 0x22 then Some (acc, n + 1)
      else if c = CHR 0x5C then
        (case decode_escape cs of
           None \<Rightarrow> None
         | Some (bytes, k) \<Rightarrow> lex_string (acc @ bytes) (n + 1 + k) (drop k cs))
      else if (of_char c :: nat) < 0x20 then None
      else lex_string (acc @ [c]) (n + 1) cs)"
  by pat_completeness auto
termination
  by (relation "measure (\<lambda>(acc, n, cs). length cs)") auto

definition is_number_char :: "char \<Rightarrow> bool" where
  "is_number_char c \<longleftrightarrow> c \<in> set ''0123456789+-.eE''"

definition valid_exponent :: "string \<Rightarrow> bool" where
  "valid_exponent s =
     (case s of
        [] \<Rightarrow> True
      | e # r \<Rightarrow>
          (e = CHR ''e'' \<or> e = CHR ''E'') \<and>
          (let ds = (case r of [] \<Rightarrow> [] | g # r' \<Rightarrow> if g = CHR ''+'' \<or> g = CHR ''-'' then r' else r)
           in ds \<noteq> [] \<and> list_all is_digit ds))"

definition valid_fraction :: "string \<Rightarrow> bool" where
  "valid_fraction s =
     (case s of
        [] \<Rightarrow> True
      | p # r \<Rightarrow>
          if p = CHR ''.'' then takeWhile is_digit r \<noteq> [] \<and> valid_exponent (dropWhile is_digit r)
          else valid_exponent s)"

definition valid_number :: "string \<Rightarrow> bool" where
  "valid_number s =
     (case (case s of [] \<Rightarrow> [] | m # r \<Rightarrow> if m = CHR ''-'' then r else s) of
        [] \<Rightarrow> False
      | d # r \<Rightarrow>
          if d = CHR ''0'' then valid_fraction r
          else is_digit d \<and> valid_fraction (dropWhile is_digit r))"

definition is_json_space :: "char \<Rightarrow> bool" where
  "is_json_space c \<longleftrightarrow> c = CHR '' '' \<or> c = CHR 0x09 \<or> c = CHR 0x0A \<or> c = CHR 0x0D"

definition punctuation :: "char \<Rightarrow> token option" where
  "punctuation c =
     map_of [(CHR ''{'', LBrace), (CHR ''}'', RBrace), (CHR ''['', LBracket), (CHR '']'', RBracket),
             (CHR '':'', Colon), (CHR '','', Comma)] c"

text \<open>
  A number is the longest run of number characters, checked against the grammar: two
  numbers never stand side by side in a JSON text, so nothing is lost.
\<close>

function tokenize :: "string \<Rightarrow> token list option" where
  "tokenize [] = Some []"
| "tokenize (c # cs) =
     (if is_json_space c then tokenize cs
      else case punctuation c of
        Some t \<Rightarrow> map_option ((#) t) (tokenize cs)
      | None \<Rightarrow>
          if c = CHR 0x22 then
            (case lex_string [] 0 cs of
               None \<Rightarrow> None
             | Some (s, n) \<Rightarrow> map_option ((#) (TString s)) (tokenize (drop n cs)))
          else if c = CHR ''-'' \<or> is_digit c then
            (if valid_number (c # takeWhile is_number_char cs)
             then map_option ((#) (TNumber (c # takeWhile is_number_char cs)))
                    (tokenize (dropWhile is_number_char cs))
             else None)
          else if starts_with (c # cs) ''true'' then map_option ((#) TTrue) (tokenize (drop 3 cs))
          else if starts_with (c # cs) ''false'' then map_option ((#) TFalse) (tokenize (drop 4 cs))
          else if starts_with (c # cs) ''null'' then map_option ((#) TNull) (tokenize (drop 3 cs))
          else None)"
  by pat_completeness auto
termination
  by (relation "measure length") (auto simp: le_imp_less_Suc length_dropWhile_le)

text \<open>
  The parser reads the tokens from left to right, keeping the containers that are still
  open, innermost first, and what may come next.
\<close>

datatype container =
    InArray "js_value list"
  | InObject "(string \<times> js_value) list"
  | InMember "(string \<times> js_value) list" string

datatype expect = Value | ValueOrClose | KeyOrClose | Key | AfterKey | CommaOrClose | Finished js_value

fun finish_value :: "js_value \<Rightarrow> container list \<Rightarrow> (expect \<times> container list) option" where
  "finish_value v [] = Some (Finished v, [])"
| "finish_value v (InArray vs # st) = Some (CommaOrClose, InArray (vs @ [v]) # st)"
| "finish_value v (InMember ms k # st) = Some (CommaOrClose, InObject (set_member k v ms) # st)"
| "finish_value v (InObject ms # st) = None"

fun scalar :: "token \<Rightarrow> js_value option" where
  "scalar (TString s) = Some (JString s)"
| "scalar (TNumber n) = Some (JNumber n)"
| "scalar TTrue = Some (JBool True)"
| "scalar TFalse = Some (JBool False)"
| "scalar TNull = Some JNull"
| "scalar _ = None"

fun start_value :: "token \<Rightarrow> container list \<Rightarrow> (expect \<times> container list) option" where
  "start_value LBracket st = Some (ValueOrClose, InArray [] # st)"
| "start_value LBrace st = Some (KeyOrClose, InObject [] # st)"
| "start_value t st = (case scalar t of Some v \<Rightarrow> finish_value v st | None \<Rightarrow> None)"

fun close_array :: "container list \<Rightarrow> (expect \<times> container list) option" where
  "close_array (InArray vs # st) = finish_value (JArray vs) st"
| "close_array _ = None"

fun close_object :: "container list \<Rightarrow> (expect \<times> container list) option" where
  "close_object (InObject ms # st) = finish_value (JObject ms) st"
| "close_object _ = None"

fun open_member :: "token \<Rightarrow> container list \<Rightarrow> (expect \<times> container list) option" where
  "open_member (TString k) (InObject ms # st) = Some (AfterKey, InMember ms k # st)"
| "open_member _ _ = None"

fun after_comma :: "container list \<Rightarrow> (expect \<times> container list) option" where
  "after_comma (InArray vs # st) = Some (Value, InArray vs # st)"
| "after_comma (InObject ms # st) = Some (Key, InObject ms # st)"
| "after_comma _ = None"

fun parse_step :: "token \<Rightarrow> expect \<times> container list \<Rightarrow> (expect \<times> container list) option" where
  "parse_step t (Value, st) = start_value t st"
| "parse_step t (ValueOrClose, st) = (if t = RBracket then close_array st else start_value t st)"
| "parse_step t (KeyOrClose, st) = (if t = RBrace then close_object st else open_member t st)"
| "parse_step t (Key, st) = open_member t st"
| "parse_step t (AfterKey, st) = (if t = Colon then Some (Value, st) else None)"
| "parse_step t (CommaOrClose, st) =
     (if t = Comma then after_comma st
      else if t = RBracket then close_array st
      else if t = RBrace then close_object st
      else None)"
| "parse_step t (Finished v, st) = None"

fun parse_tokens :: "token list \<Rightarrow> expect \<times> container list \<Rightarrow> js_value option" where
  "parse_tokens [] (Finished v, st) = Some v"
| "parse_tokens [] (e, st) = None"
| "parse_tokens (t # ts) state =
     (case parse_step t state of None \<Rightarrow> None | Some state' \<Rightarrow> parse_tokens ts state')"

definition parse_json :: "string \<Rightarrow> js_value option" where
  "parse_json txt = (case tokenize txt of None \<Rightarrow> None | Some ts \<Rightarrow> parse_tokens ts (Value, []))"

subsection \<open>Parsing, reading and printing values\<close>

definition JSON_parse :: "platform \<Rightarrow> string \<Rightarrow> thrown + js_value" where
  "JSON_parse P txt =
     (case parse_json txt of
        None \<Rightarrow> Inl (SyntaxError (json_error_message P txt))
      | Some v \<Rightarrow> Inr v)"

text \<open>
  Reading the property \<open>k\<close> of a value. The names read in this program
  (\<^verbatim>\<open>feedbackCard\<close>, \<^verbatim>\<open>healingSentence\<close>, \<^verbatim>\<open>theme\<close>, \<^verbatim>\<open>designConfig\<close>) are no members
  of a built-in prototype, so only own properties of objects count.
\<close>

fun own_member :: "js_value \<Rightarrow> string \<Rightarrow> js_value" where
  "own_member (JObject ms) k = (case map_of ms k of None \<Rightarrow> JUndefined | Some v \<Rightarrow> v)"
| "own_member _ k = JUndefined"

fun get_member :: "platform \<Rightarrow> js_value \<Rightarrow> string \<Rightarrow> thrown + js_value" where
  "get_member P JNull k = Inl (TypeError (property_error_message P JNull k))"
| "get_member P JUndefined k = Inl (TypeError (property_error_message P JUndefined k))"
| "get_member P v k = Inr (own_member v k)"

text \<open>
  The string a template literal puts in for a value. An array prints its elements joined
  by commas, \<^verbatim>\<open>null\<close> and \<^verbatim>\<open>undefined\<close> as nothing; an object prints as
  \<^verbatim>\<open>[object Object]\<close> unless it has a property \<^verbatim>\<open>toString\<close> of its own, which a parsed
  value cannot call.
\<close>

fun to_string :: "platform \<Rightarrow> js_value \<Rightarrow> thrown + string"
  and join_elements :: "platform \<Rightarrow> js_value list \<Rightarrow> thrown + string"
where
  "to_string P JUndefined = Inr ''undefined''"
| "to_string P JNull = Inr ''null''"
| "to_string P (JBool b) = Inr (if b then ''true'' else ''false'')"
| "to_string P (JNumber n) = Inr (number_to_string P n)"
| "to_string P (JString s) = Inr s"
| "to_string P (JArray vs) = join_elements P vs"
| "to_string P (JObject ms) =
     (if map_of ms ''toString'' = None then Inr ''[object Object]''
      else Inl (TypeError (primitive_error_message P)))"
| "join_elements P [] = Inr []"
| "join_elements P (v # vs) =
     (case (if v = JNull \<or> v = JUndefined then Inr [] else to_string P v) of
        Inl err \<Rightarrow> Inl err
      | Inr s \<Rightarrow>
          if vs = [] then Inr s
          else (case join_elements P vs of Inl err \<Rightarrow> Inl err | Inr r \<Rightarrow> Inr (s @ '','' @ r)))"

fun truthy :: "platform \<Rightarrow> js_value \<Rightarrow> bool" where
  "truthy P JUndefined = False"
| "truthy P JNull = False"
| "truthy P (JBool b) = b"
| "truthy P (JNumber n) = (\<not> number_is_zero P n)"
| "truthy P (JString s) = (s \<noteq> [])"
| "truthy P (JArray vs) = True"
| "truthy P (JObject ms) = True"

subsection \<open>The generation client (\<^verbatim>\<open>geminiService.ts\<close>)\<close>

text \<open>
  A request to the provider carries the resolved key and what distinguishes the five
  calls: the text put into the fixed prompt, and for a refinement the kind that selects
  the system instruction. The model name, the response schema and the image
  configuration are fixed by the kind of request. Of a response the code reads
  \<^verbatim>\<open>response.text\<close> and the parts of the first candidate (none when there is no
  candidate); a part has \<^verbatim>\<open>inlineData\<close>, holding \<^verbatim>\<open>data\<close> or not, or has none.
\<close>

datatype content_kind = RecordKind | FeedbackKind

datatype request_body =
    FormalRecordPrompt string
  | FeedbackSummaryPrompt string
  | CardImagePrompt string
  | RefineContentPrompt content_kind string string
  | RefineImagePromptPrompt string string

record request =
  apiKey :: string
  body :: request_body

datatype part = NoInlineData | InlineData "string option"

record response =
  response_text :: "string option"
  response_parts :: "part list"

type_synonym 'w provider = "request \<Rightarrow> 'w \<Rightarrow> (thrown + response) \<times> 'w"

text \<open>\<^verbatim>\<open>customKey || process.env.GEMINI_API_KEY || ""\<close>\<close>

definition getAI :: "platform \<Rightarrow> string option \<Rightarrow> string" where
  "getAI P customKey = or_else customKey (or_else (GEMINI_API_KEY P) [])"

text \<open>One call of \<^verbatim>\<open>ai.models.generateContent\<close>, its response handed to \<open>extract\<close>.\<close>

definition generateContent ::
  "'w provider \<Rightarrow> request \<Rightarrow> (response \<Rightarrow> thrown + 'a) \<Rightarrow> ('w, 'a) operation" where
  "generateContent provider req extract w =
     (case provider req w of
        (Inl err, w') \<Rightarrow> (Inl err, w')
      | (Inr resp, w') \<Rightarrow> (extract resp, w'))"

definition generateFormalRecord ::
  "platform \<Rightarrow> 'w provider \<Rightarrow> string \<Rightarrow> string option \<Rightarrow> 'w env \<Rightarrow> (thrown + string option) \<times> 'w env"
where
  "generateFormalRecord P provider inp customKey =
     withRetry P
       (generateContent provider \<lparr>apiKey = getAI P customKey, body = FormalRecordPrompt inp\<rparr>
          (\<lambda>resp. Inr (response_text resp)))
       3"

record FeedbackData =
  feedbackCard :: js_value
  healingSentence :: js_value
  theme :: js_value
  fullText :: "string option"
  designConfig :: js_value

text \<open>
  \<^verbatim>\<open>const data = JSON.parse(response.text || "{}");\<close>
  \<^verbatim>\<open>return { ...data, fullText: `${data.feedbackCard}\n\n${data.healingSentence}` };\<close>
  The result is kept as the five fields of the interface \<^verbatim>\<open>FeedbackData\<close>; spreading a
  value that is no object contributes none of them.
\<close>

definition blank_line_join :: "string \<Rightarrow> string \<Rightarrow> string" where
  "blank_line_join a b = a @ [CHR 0x0A, CHR 0x0A] @ b"

definition feedback_of_response :: "platform \<Rightarrow> response \<Rightarrow> thrown + FeedbackData" where
  "feedback_of_response P resp =
     (case JSON_parse P (or_else (response_text resp) ''{}'') of
        Inl err \<Rightarrow> Inl err
      | Inr data \<Rightarrow>
          (case get_member P data ''feedbackCard'' of
             Inl err \<Rightarrow> Inl err
           | Inr card_value \<Rightarrow>
               (case to_string P card_value of
                  Inl err \<Rightarrow> Inl err
                | Inr a \<Rightarrow>
                    (case get_member P data ''healingSentence'' of
                       Inl err \<Rightarrow> Inl err
                     | Inr sentence_value \<Rightarrow>
                         (case to_string P sentence_value of
                            Inl err \<Rightarrow> Inl err
                          | Inr b \<Rightarrow>
                              Inr \<lparr>feedbackCard = own_member data ''feedbackCard'',
                                   healingSentence = own_member data ''healingSentence'',
                                   theme = own_member data ''theme'',
                                   fullText = Some (blank_line_join a b),
                                   designConfig = own_member data ''designConfig''\<rparr>)))))"

definition generateFeedbackSummary ::
  "platform \<Rightarrow> 'w provider \<Rightarrow> string \<Rightarrow> string option \<Rightarrow> 'w env \<Rightarrow> (thrown + FeedbackData) \<times> 'w env"
where
  "generateFeedbackSummary P provider formalRecord customKey =
     withRetry P
       (generateContent provider
          \<lparr>apiKey = getAI P customKey, body = FeedbackSummaryPrompt formalRecord\<rparr>
          (feedback_of_response P))
       3"

text \<open>The table \<^verbatim>\<open>IMAGE_STYLES\<close>, in the order of the source.\<close>

definition style_auto :: string where
  "style_auto =
     ''A unique, artistic illustration. Style: Modern, healing. SCENE: A vast ''
     @ ''landscape with rolling hills, a distant mountain range, or an abstract ''
     @ ''tapestry of weaving light. STICK TO LANDSCAPES OR ABSTRACT ART. STRICTLY ''
     @ ''FORBIDDEN: SPROUTS, SEEDLINGS, LEAVES, GREEN PLANTS, ANY GROWTH METAPHORS. ''
     @ ''ABSOLUTELY NO TEXT.''"

definition style_cute_animal :: string where
  "style_cute_animal =
     ''A cute and warm illustration. SCENE: A busy forest festival with many ''
     @ ''different animals (rabbits, cats, dogs, bears) playing musical instruments or ''
     @ ''sharing a feast. RICH BACKGROUND with many details. NO PLANTS IN FOCUS. ''
     @ ''STRICTLY FORBIDDEN: SPROUTS, SEEDLINGS, LEAVES. ABSOLUTELY NO TEXT.''"

definition style_warm_book :: string where
  "style_warm_book =
     ''A warm, healing illustration, picture book style. SCENE: A wide-angle view of ''
     @ ''a cozy village at night with glowing windows, or a library with floating books ''
     @ ''and warm candlelight. FOCUS ON ATMOSPHERE. STRICTLY FORBIDDEN: SPROUTS, ''
     @ ''SEEDLINGS, LEAVES. ABSOLUTELY NO TEXT.''"

definition style_nature_organic :: string where
  "style_nature_organic =
     ''Style: Soft painterly edges, ink wash. SCENE: A grand waterfall cascading into ''
     @ ''a misty lake, or a wide rocky canyon with glowing minerals. FOCUS ON ''
     @ ''GEOLOGICAL VASTNESS. STRICTLY FORBIDDEN: SPROUTS, SEEDLINGS, GREEN LEAVES. ''
     @ ''ABSOLUTELY NO TEXT.''"

definition style_frieren_fantasy :: string where
  "style_frieren_fantasy =
     ''A beautiful elf female mage, Sousou no Frieren style. SCENE: She is standing ''
     @ ''on a high stone balcony overlooking a massive stone castle and a sunset sea. ''
     @ ''FOCUS ON ARCHITECTURE AND SCALE. STRICTLY FORBIDDEN: SPROUTS, SEEDLINGS, ''
     @ ''LEAVES. ABSOLUTELY NO TEXT.''"

definition style_professional_calm :: string where
  "style_professional_calm =
     ''Professional, minimalist illustration. Modern editorial style. SCENE: An ''
     @ ''abstract composition of many overlapping translucent geometric shapes, or a ''
     @ ''complex network of delicate golden threads. FOCUS ON BALANCE. STRICTLY ''
     @ ''FORBIDDEN: SPROUTS, SEEDLINGS, LEAVES. ABSOLUTELY NO TEXT.''"

definition style_starry_dream :: string where
  "style_starry_dream =
     ''A dreamlike illustration of a vast galaxy. SCENE: Thousands of stars, swirling ''
     @ ''nebulae, and distant planets. A cosmic journey. STRICTLY FORBIDDEN: ANY ''
     @ ''TERRESTRIAL PLANTS, SPROUTS, SEEDLINGS. ABSOLUTELY NO TEXT.''"

definition style_oil_texture :: string where
  "style_oil_texture =
     ''A rich, textured oil painting. SCENE: A classic landscape of a winding river ''
     @ ''through a rocky valley, or a stormy sea with crashing waves. FOCUS ON TEXTURE. ''
     @ ''STRICTLY FORBIDDEN: SPROUTS, SEEDLINGS, LEAVES. ABSOLUTELY NO TEXT.''"

definition style_minimalist_line :: string where
  "style_minimalist_line =
     ''Minimalist line art on textured cream background. SCENE: A complex, continuous ''
     @ ''line drawing of a mountain range or a series of interconnected geometric ''
     @ ''patterns. STRICTLY FORBIDDEN: SPROUTS, SEEDLINGS, LEAVES. ABSOLUTELY NO TEXT.''"

definition style_ghibli_fresh :: string where
  "style_ghibli_fresh =
     ''Studio Ghibli style. SCENE: A vast, lush valley with a train track running ''
     @ ''through it, or a high-altitude view of a seaside town with many houses, ships, ''
     @ ''and a bustling harbor. RICH IN ARCHITECTURAL DETAIL. STRICTLY FORBIDDEN: ''
     @ ''SPROUTS, SEEDLINGS, LEAVES. ABSOLUTELY NO TEXT.''"

definition IMAGE_STYLES :: "(string \<times> string) list" where
  "IMAGE_STYLES =
     [(''auto'', style_auto),
      (''cute_animal'', style_cute_animal),
      (''warm_book'', style_warm_book),
      (''nature_organic'', style_nature_organic),
      (''frieren_fantasy'', style_frieren_fantasy),
      (''professional_calm'', style_professional_calm),
      (''starry_dream'', style_starry_dream),
      (''oil_texture'', style_oil_texture),
      (''minimalist_line'', style_minimalist_line),
      (''ghibli_fresh'', style_ghibli_fresh)]"

text \<open>
  \<^verbatim>\<open>IMAGE_STYLES[key]\<close> finds a property of the table itself, or a member the object
  literal inherits from \<^verbatim>\<open>Object.prototype\<close> (a built-in function, or the prototype
  object under \<^verbatim>\<open>__proto__\<close>), or nothing. All but the last are truthy.
\<close>

definition Object_prototype_functions :: "string list" where
  "Object_prototype_functions =
     [''constructor'', ''hasOwnProperty'', ''isPrototypeOf'', ''propertyIsEnumerable'',
      ''toLocaleString'', ''toString'', ''valueOf'', ''__defineGetter__'', ''__defineSetter__'',
      ''__lookupGetter__'', ''__lookupSetter__'']"

datatype style_entry = StyleTemplate string | InheritedFunction string | InheritedPrototype | NoStyle

definition IMAGE_STYLES_get :: "string \<Rightarrow> style_entry" where
  "IMAGE_STYLES_get key =
     (case map_of IMAGE_STYLES key of
        Some template \<Rightarrow> StyleTemplate template
      | None \<Rightarrow>
          if key \<in> set Object_prototype_functions then InheritedFunction key
          else if key = ''__proto__'' then InheritedPrototype
          else NoStyle)"

text \<open>The string a template literal puts in for such an entry.\<close>

fun style_text :: "platform \<Rightarrow> style_entry \<Rightarrow> string" where
  "style_text P (StyleTemplate template) = template"
| "style_text P (InheritedFunction name) = native_function_text P name"
| "style_text P InheritedPrototype = ''[object Object]''"
| "style_text P NoStyle = ''undefined''"

text \<open>\<^verbatim>\<open>IMAGE_STYLES[styleKey] || IMAGE_STYLES.warm_book\<close>\<close>

definition style_or_warm_book :: "string \<Rightarrow> style_entry" where
  "style_or_warm_book styleKey =
     (case IMAGE_STYLES_get styleKey of
        NoStyle \<Rightarrow> StyleTemplate style_warm_book
      | found \<Rightarrow> found)"

definition no_text_suffix :: string where
  "no_text_suffix = ''ABSOLUTELY NO TEXT, NO LETTERS, NO CHARACTERS, NO WORDS IN THE IMAGE.''"

text \<open>
  The prompt \<^verbatim>\<open>generateCardImage\<close> sends. \<open>styleKey\<close> is \<open>None\<close> when the argument is
  left out, and then is \<^verbatim>\<open>'warm_book'\<close>.
\<close>

definition styledPrompt :: "platform \<Rightarrow> string \<Rightarrow> string \<Rightarrow> string" where
  "styledPrompt P theme_text styleKey =
     (let stylePrompt = style_text P (style_or_warm_book styleKey)
      in if styleKey = ''auto''
         then stylePrompt @ '' The theme is: '' @ theme_text
              @ ''. Create a visual metaphor for this theme. '' @ no_text_suffix
         else stylePrompt @ '' Theme: '' @ theme_text @ ''. '' @ no_text_suffix)"

definition finalPrompt :: "platform \<Rightarrow> string \<Rightarrow> string option \<Rightarrow> string option \<Rightarrow> string" where
  "finalPrompt P theme_text styleKey rawPrompt =
     (let key = (case styleKey of None \<Rightarrow> ''warm_book'' | Some k \<Rightarrow> k)
      in case rawPrompt of
           None \<Rightarrow> styledPrompt P theme_text key
         | Some raw \<Rightarrow>
             if raw \<noteq> [] then raw @ ''. '' @ no_text_suffix
             else styledPrompt P theme_text key)"

text \<open>The first part with \<^verbatim>\<open>inlineData\<close>, as a data URI; \<^verbatim>\<open>null\<close> when there is none.\<close>

fun first_image :: "part list \<Rightarrow> string option" where
  "first_image [] = None"
| "first_image (NoInlineData # ps) = first_image ps"
| "first_image (InlineData d # ps) =
     Some (''data:image/png;base64,'' @ (case d of None \<Rightarrow> ''undefined'' | Some x \<Rightarrow> x))"

definition generateCardImage ::
  "platform \<Rightarrow> 'w provider \<Rightarrow> string \<Rightarrow> string option \<Rightarrow> string option \<Rightarrow> string option
   \<Rightarrow> 'w env \<Rightarrow> (thrown + string option) \<times> 'w env"
where
  "generateCardImage P provider theme_text styleKey rawPrompt customKey =
     withRetry P
       (generateContent provider
          \<lparr>apiKey = getAI P customKey,
           body = CardImagePrompt (finalPrompt P theme_text styleKey rawPrompt)\<rparr>
          (\<lambda>resp. Inr (first_image (response_parts resp))))
       3"

definition refineContent ::
  "platform \<Rightarrow> 'w provider \<Rightarrow> string \<Rightarrow> string \<Rightarrow> content_kind \<Rightarrow> string option
   \<Rightarrow> 'w env \<Rightarrow> (thrown + string option) \<times> 'w env"
where
  "refineContent P provider currentContent instruction kind customKey =
     withRetry P
       (generateContent provider
          \<lparr>apiKey = getAI P customKey, body = RefineContentPrompt kind currentContent instruction\<rparr>
          (\<lambda>resp. Inr (response_text resp)))
       3"

definition refineImagePrompt ::
  "platform \<Rightarrow> 'w provider \<Rightarrow> string \<Rightarrow> string \<Rightarrow> string option
   \<Rightarrow> 'w env \<Rightarrow> (thrown + string option) \<times> 'w env"
where
  "refineImagePrompt P provider currentPrompt instruction customKey =
     withRetry P
       (generateContent provider
          \<lparr>apiKey = getAI P customKey, body = RefineImagePromptPrompt currentPrompt instruction\<rparr>
          (\<lambda>resp. Inr (response_text resp)))
       3"

subsection \<open>The component \<^verbatim>\<open>App\<close>: state and handlers\<close>

text \<open>
  The state cells of the component that the handlers below read or write. The messages
  shown to the user are named, not spelled out: that the key has expired or is not set;
  that the quota is used up; and that generating the record, refining the text, refining
  the image prompt, generating the feedback or generating the card has failed.
\<close>

datatype Step = Initial | Record | Feedback | Visual

datatype ui_message =
    KeyExpiredMessage | QuotaMessage | RecordFailedMessage | RefineFailedMessage
  | ImageRefineFailedMessage | FeedbackFailedMessage | VisualFailedMessage

record app_state =
  input :: string
  isGenerating :: bool
  formalRecord :: string
  feedback :: "FeedbackData option"
  cardImage :: "string option"
  imagePrompt :: "string option"
  step :: Step
  selectedStyle :: string
  error :: "ui_message option"
  hasKey :: bool
  isEditing :: bool
  refinementInput :: string
  isRefining :: bool
  imageRefinementInput :: string
  isRefiningImage :: bool
  userApiKey :: string

definition initial_state :: app_state where
  "initial_state =
     \<lparr>input = [], isGenerating = False, formalRecord = [], feedback = None, cardImage = None,
      imagePrompt = None, step = Initial, selectedStyle = ''auto'', error = None, hasKey = True,
      isEditing = False, refinementInput = [], isRefining = False, imageRefinementInput = [],
      isRefiningImage = False, userApiKey = []\<rparr>"

text \<open>
  \<^verbatim>\<open>handleGenerateRecord\<close>. Its \<^verbatim>\<open>catch\<close> block reads the message of the error the same
  way the retry wrapper does; when that throws, no message is set, \<^verbatim>\<open>finally\<close> still
  runs, and the promise the handler returns, which nothing awaits, is rejected.
\<close>

definition handleGenerateRecord ::
  "platform \<Rightarrow> 'w provider \<Rightarrow> app_state \<Rightarrow> 'w env \<Rightarrow> app_state \<times> 'w env" where
  "handleGenerateRecord P provider s env =
     (if trim (input s) = [] then (s, env)
      else
        let s1 = s\<lparr>isGenerating := True, error := None\<rparr> in
        case generateFormalRecord P provider (input s) (Some (userApiKey s)) env of
          (Inr generated, env') \<Rightarrow>
            (s1\<lparr>formalRecord := or_else generated [], step := Record, isGenerating := False\<rparr>,
             env')
        | (Inl err, env') \<Rightarrow>
            ((case message_includes P ''err'' err ''Requested entity was not found'' of
                Inl raised \<Rightarrow> s1
              | Inr expired \<Rightarrow>
                  if expired then s1\<lparr>hasKey := False, error := Some KeyExpiredMessage\<rparr>
                  else (case message_includes P ''err'' err ''RESOURCE_EXHAUSTED'' of
                          Inl raised \<Rightarrow> s1
                        | Inr exhausted \<Rightarrow>
                            s1\<lparr>error := Some (if exhausted then QuotaMessage
                                               else RecordFailedMessage)\<rparr>))
             \<lparr>isGenerating := False\<rparr>,
             env'))"

definition handleRefine ::
  "platform \<Rightarrow> 'w provider \<Rightarrow> app_state \<Rightarrow> 'w env \<Rightarrow> app_state \<times> 'w env" where
  "handleRefine P provider s env =
     (if trim (refinementInput s) = [] then (s, env)
      else
        let s1 = s\<lparr>isRefining := True, error := None\<rparr>;
            currentContent =
              (if step s = Record then formalRecord s
               else case feedback s of None \<Rightarrow> [] | Some fb \<Rightarrow> or_else (fullText fb) []);
            kind = (if step s = Record then RecordKind else FeedbackKind)
        in case refineContent P provider currentContent (refinementInput s) kind
                  (Some (userApiKey s)) env of
             (Inr refined, env') \<Rightarrow>
               ((if step s = Record then s1\<lparr>formalRecord := or_else refined []\<rparr>
                 else s1\<lparr>feedback := map_option (\<lambda>prev. prev\<lparr>fullText := refined\<rparr>) (feedback s1)\<rparr>)
                \<lparr>refinementInput := [], isRefining := False\<rparr>,
                env')
           | (Inl err, env') \<Rightarrow>
               (s1\<lparr>error := Some RefineFailedMessage, isRefining := False\<rparr>, env'))"

definition handleRefineImage ::
  "platform \<Rightarrow> 'w provider \<Rightarrow> app_state \<Rightarrow> 'w env \<Rightarrow> app_state \<times> 'w env" where
  "handleRefineImage P provider s env =
     (if trim (imageRefinementInput s) = [] \<or> \<not> truthy_text (imagePrompt s) then (s, env)
      else
        let s1 = s\<lparr>isRefiningImage := True, error := None\<rparr> in
        case refineImagePrompt P provider (or_else (imagePrompt s) []) (imageRefinementInput s)
               (Some (userApiKey s)) env of
          (Inl err, env') \<Rightarrow>
            (s1\<lparr>error := Some ImageRefineFailedMessage, isRefiningImage := False\<rparr>, env')
        | (Inr refinedPrompt, env') \<Rightarrow>
            if truthy_text refinedPrompt then
              let s2 = s1\<lparr>imagePrompt := refinedPrompt, cardImage := None\<rparr> in
              case generateCardImage P provider [] (Some (selectedStyle s)) refinedPrompt
                     (Some (userApiKey s)) env' of
                (Inl err, env'') \<Rightarrow>
                  (s2\<lparr>error := Some ImageRefineFailedMessage, isRefiningImage := False\<rparr>, env'')
              | (Inr newImage, env'') \<Rightarrow>
                  (s2\<lparr>cardImage := newImage, imageRefinementInput := [],
                      isRefiningImage := False\<rparr>,
                   env'')
            else (s1\<lparr>imageRefinementInput := [], isRefiningImage := False\<rparr>, env'))"

text \<open>
  \<^verbatim>\<open>const fullText = `${summary.feedbackCard}\n\n${summary.healingSentence}`;\<close>
  \<^verbatim>\<open>setFeedback({ ...summary, fullText });\<close>
\<close>

definition with_fullText :: "platform \<Rightarrow> FeedbackData \<Rightarrow> thrown + FeedbackData" where
  "with_fullText P summary =
     (case to_string P (feedbackCard summary) of
        Inl err \<Rightarrow> Inl err
      | Inr a \<Rightarrow>
          (case to_string P (healingSentence summary) of
             Inl err \<Rightarrow> Inl err
           | Inr b \<Rightarrow> Inr (summary\<lparr>fullText := Some (blank_line_join a b)\<rparr>)))"

definition handleGoToFeedback ::
  "platform \<Rightarrow> 'w provider \<Rightarrow> app_state \<Rightarrow> 'w env \<Rightarrow> app_state \<times> 'w env" where
  "handleGoToFeedback P provider s env =
     (let s1 = s\<lparr>isGenerating := True, error := None\<rparr> in
      case generateFeedbackSummary P provider (formalRecord s) (Some (userApiKey s)) env of
        (Inl err, env') \<Rightarrow>
          (s1\<lparr>error := Some FeedbackFailedMessage, isGenerating := False\<rparr>, env')
      | (Inr summary, env') \<Rightarrow>
          (case with_fullText P summary of
             Inl err \<Rightarrow> (s1\<lparr>error := Some FeedbackFailedMessage, isGenerating := False\<rparr>, env')
           | Inr fb \<Rightarrow>
               (s1\<lparr>feedback := Some fb, step := Feedback, isEditing := False,
                   isGenerating := False\<rparr>,
                env')))"

text \<open>
  The theme and the prompt \<^verbatim>\<open>handleGoToVisual\<close> builds:
  \<^verbatim>\<open>const stylePrompt = IMAGE_STYLES[selectedStyle];\<close>
  \<^verbatim>\<open>const theme = feedback?.theme || 'warmth';\<close> and the template for \<^verbatim>\<open>'auto'\<close> or the
  one for the other styles.
\<close>

definition visual_theme :: "platform \<Rightarrow> app_state \<Rightarrow> js_value" where
  "visual_theme P s =
     (case feedback s of
        None \<Rightarrow> JString ''warmth''
      | Some fb \<Rightarrow> if truthy P (theme fb) then theme fb else JString ''warmth'')"

definition visual_prompt :: "platform \<Rightarrow> app_state \<Rightarrow> string \<Rightarrow> string" where
  "visual_prompt P s theme_text =
     (let stylePrompt = style_text P (IMAGE_STYLES_get (selectedStyle s))
      in if selectedStyle s = ''auto''
         then ''aspect ratio 9:16. '' @ stylePrompt @ '' The theme is: '' @ theme_text
              @ ''. Create a visual metaphor for this theme.''
         else stylePrompt @ '' Theme: '' @ theme_text @ ''.'')"

definition handleGoToVisual ::
  "platform \<Rightarrow> 'w provider \<Rightarrow> app_state \<Rightarrow> 'w env \<Rightarrow> app_state \<times> 'w env" where
  "handleGoToVisual P provider s env =
     (let s1 = s\<lparr>isGenerating := True, error := None\<rparr> in
      case to_string P (visual_theme P s) of
        Inl err \<Rightarrow> (s1\<lparr>error := Some VisualFailedMessage, isGenerating := False\<rparr>, env)
      | Inr theme_text \<Rightarrow>
          let prompt = visual_prompt P s theme_text;
              s2 = s1\<lparr>imagePrompt := Some prompt\<rparr>
          in case generateCardImage P provider theme_text (Some (selectedStyle s)) (Some prompt)
                    (Some (userApiKey s)) env of
               (Inl err, env') \<Rightarrow>
                 (s2\<lparr>error := Some VisualFailedMessage, isGenerating := False\<rparr>, env')
             | (Inr img, env') \<Rightarrow>
                 (s2\<lparr>cardImage := img, step := Visual, isGenerating := False\<rparr>, env'))"

text \<open>The two buttons of the last stage: \<^verbatim>\<open>() => setStep('feedback')\<close> and \<^verbatim>\<open>reset\<close>.\<close>

definition backToFeedback :: "app_state \<Rightarrow> app_state" where
  "backToFeedback s = s\<lparr>step := Feedback\<rparr>"

definition reset :: "app_state \<Rightarrow> app_state" where
  "reset s =
     s\<lparr>step := Initial, formalRecord := [], feedback := None, cardImage := None,
       imagePrompt := None, input := [], isEditing := False\<rparr>"

text \<open>The pipeline state of the specification, as a part of the component's state.\<close>

record pipeline_state =
  rawInput :: string
  record_text :: string
  feedback_result :: "FeedbackData option"
  image_prompt :: "string option"
  card_image :: "string option"
  currentStage :: Step

definition pipeline :: "app_state \<Rightarrow> pipeline_state" where
  "pipeline s =
     \<lparr>rawInput = input s, record_text = formalRecord s, feedback_result = feedback s,
      image_prompt = imagePrompt s, card_image = cardImage s, currentStage = step s\<rparr>"

text \<open>
  One engine, to run examples on: a number prints as it is written and is zero when its
  digits before the exponent are (so the example numbers are integers that do not
  underflow), and the messages are those of V8, that of the parser without the text read.
\<close>

definition example_platform :: platform where
  "example_platform =
     \<lparr>GEMINI_API_KEY = None,
      number_to_string = (\<lambda>lexeme. lexeme),
      number_is_zero = (\<lambda>lexeme. list_all (\<lambda>c. c \<notin> set ''123456789'') (takeWhile (\<lambda>c. c \<notin> set ''eE'') lexeme)),
      json_error_message = (\<lambda>txt. ''Unexpected token in JSON''),
      property_error_message =
        (\<lambda>v k. ''Cannot read properties of '' @ (if v = JNull then ''null'' else ''undefined'')
           @ '' (reading '' @ [CHR 0x27] @ k @ [CHR 0x27] @ '')''),
      primitive_error_message = ''Cannot convert object to primitive value'',
      not_a_function_message = (\<lambda>callee argument. callee @ '' is not a function''),
      native_function_text = (\<lambda>name. ''function '' @ name @ ''() { [native code] }'')\<rparr>"

subsection \<open>Operations, providers and states to run examples on\<close>

text \<open>
  The world of the examples is a counter of the calls made. One operation fails every
  time with HTTP status 429, one with status 500.
\<close>

definition rate_limited_operation :: "(nat, unit) operation" where
  "rate_limited_operation w = (Inl (ApiError (Some 429) None JUndefined), Suc w)"

definition server_error_operation :: "(nat, unit) operation" where
  "server_error_operation w = (Inl (ApiError (Some 500) None (JString ''Internal error'')), Suc w)"

definition example_env :: "rat \<Rightarrow> nat env" where
  "example_env r = \<lparr>world = 0, random_source = (\<lambda>k. r), drawn = 0, trace = []\<rparr>"

text \<open>A provider that fails every call with status 500, and one that answers with a given text.\<close>

definition failing_provider :: "nat provider" where
  "failing_provider req w = (Inl (ApiError (Some 500) None (JString ''Internal error'')), Suc w)"

definition text_provider :: "string option \<Rightarrow> nat provider" where
  "text_provider t req w = (Inr \<lparr>response_text = t, response_parts = []\<rparr>, Suc w)"

text \<open>The payload of the specification's example, and the result it stands for.\<close>

definition example_payload :: string where
  \<open>example_payload =
     ''{"feedbackCard":"A","healingSentence":"B","theme":"calm","designConfig":''
     @ ''{"textColor":"light","textPosition":"center","fontStyle":"serif"}}''\<close>

definition example_feedback :: FeedbackData where
  "example_feedback =
     \<lparr>feedbackCard = JString ''A'', healingSentence = JString ''B'', theme = JString ''calm'',
      fullText = Some (''A'' @ [CHR 0x0A, CHR 0x0A] @ ''B''),
      designConfig = JObject [(''textColor'', JString ''light''),
                              (''textPosition'', JString ''center''),
                              (''fontStyle'', JString ''serif'')]\<rparr>"

text \<open>A state at the feedback stage, with an instruction typed in.\<close>

definition feedback_stage :: app_state where
  "feedback_stage =
     initial_state\<lparr>input := ''notes'', formalRecord := ''# record'',
       feedback := Some example_feedback, step := Feedback, refinementInput := ''shorter''\<rparr>"

text \<open>
  A state at the last stage with a refinement typed in, and a provider whose first call
  answers with a text and whose later calls fail.
\<close>

definition visual_stage :: app_state where
  "visual_stage =
     feedback_stage\<lparr>step := Visual, imagePrompt := Some ''a quiet harbour'',
       cardImage := Some ''data:image/png;base64,AAAA'', refinementInput := [],
       imageRefinementInput := ''brighter''\<rparr>"

definition answer_then_fail :: "string \<Rightarrow> nat provider" where
  "answer_then_fail t req w =
     (if w = 0 then (Inr \<lparr>response_text = Some t, response_parts = []\<rparr>, Suc w)
      else (Inl (ApiError (Some 500) None (JString ''Internal error'')), Suc w))"

text \<open>
  An operation that fails every time with status 500 and a message that is a number; a
  state at the record stage; and a state at the feedback stage whose theme is an object
  with a property \<^verbatim>\<open>toString\<close> of its own, as the payload
  \<^verbatim>\<open>{"theme":{"toString":null}}\<close> gives it, which no template literal can print.
\<close>

definition numeric_message_operation :: "(nat, unit) operation" where
  "numeric_message_operation w = (Inl (ApiError (Some 500) None (JNumber ''12345'')), Suc w)"

definition record_stage :: app_state where
  "record_stage = initial_state\<lparr>input := ''notes'', formalRecord := ''# record'', step := Record\<rparr>"

definition unprintable_theme_stage :: app_state where
  "unprintable_theme_stage =
     feedback_stage\<lparr>feedback := Some (example_feedback\<lparr>theme := JObject [(''toString'', JNull)]\<rparr>)\<rparr>"
section \<open>Properties\<close>

subsection \<open>Rounding\<close>

lemma rne_of_int [simp]: "rne (of_int n) = n"
  by (simp add: rne_def)

lemma rne_bounds: "\<lfloor>x\<rfloor> \<le> rne x" "rne x \<le> \<lfloor>x\<rfloor> + 1"
  by (simp_all add: rne_def Let_def)

lemma rne_mono:
  assumes "x \<le> y" shows "rne x \<le> rne y"
proof (cases "\<lfloor>x\<rfloor> < \<lfloor>y\<rfloor>")
  case True
  have "rne x \<le> \<lfloor>x\<rfloor> + 1" by (rule rne_bounds)
  also have "\<dots> \<le> \<lfloor>y\<rfloor>" using True by simp
  also have "\<dots> \<le> rne y" by (rule rne_bounds)
  finally show ?thesis .
next
  case False
  with assms have eq: "\<lfloor>x\<rfloor> = \<lfloor>y\<rfloor>"
    using floor_mono [of x y] by linarith
  with assms show ?thesis
    by (auto simp: rne_def Let_def)
qed

lemma powi_pos [simp]: "0 < (2::rat) powi e"
  by (simp add: power_int_def)

lemma rne_zero [simp]: "rne 0 = 0"
  using rne_of_int [of 0] by simp

lemma powi_less_imp:
  assumes "(2::rat) powi m < 2 powi n" shows "m < n"
proof (rule ccontr)
  assume "\<not> m < n"
  then have "(2::rat) powi n \<le> 2 powi m"
    by (intro power_int_increasing) simp_all
  with assms show False by simp
qed

lemma bitlen_powi:
  assumes "0 < a"
  shows "(2::rat) powi (bitlen a - 1) \<le> of_int a" and "of_int a < (2::rat) powi bitlen a"
proof -
  from assms have pos: "1 \<le> bitlen a"
    using bitlen_eq_zero_iff [of a] bitlen_nonneg [of a] by linarith
  have "(2::int) ^ nat (bitlen a - 1) \<le> a" and "a < 2 ^ nat (bitlen a)"
    using bitlen_bounds [OF assms] by simp_all
  then have "(of_int (2 ^ nat (bitlen a - 1)) :: rat) \<le> of_int a"
    and "(of_int a :: rat) < of_int (2 ^ nat (bitlen a))"
    by (simp_all only: of_int_le_iff of_int_less_iff)
  with pos show "(2::rat) powi (bitlen a - 1) \<le> of_int a"
    and "of_int a < (2::rat) powi bitlen a"
    by (simp_all add: power_int_def)
qed

lemma binade_bounds:
  assumes "0 < x"
  shows "2 powi binade x \<le> x" and "x < 2 powi (binade x + 1)"
proof -
  obtain a b where q: "quotient_of x = (a, b)" by (cases "quotient_of x")
  then have b: "0 < b" and x: "x = of_int a / of_int b"
    using quotient_of_denom_pos quotient_of_div by auto
  with assms have a: "0 < a"
    by (simp add: zero_less_divide_iff)
  define c where "c = bitlen a - bitlen b"
  have "x < 2 powi bitlen a / 2 powi (bitlen b - 1)"
    unfolding x using bitlen_powi [OF a] bitlen_powi [OF b] a b
    by (intro frac_less) simp_all
  then have up: "x < 2 powi (c + 1)"
    by (simp add: c_def power_int_diff [symmetric] algebra_simps)
  have "2 powi (bitlen a - 1) / 2 powi bitlen b \<le> x"
    unfolding x using bitlen_powi [OF a] bitlen_powi [OF b] a b
    by (intro frac_le) simp_all
  then have lo: "2 powi (c - 1) \<le> x"
    by (simp add: c_def power_int_diff [symmetric] algebra_simps)
  have bin: "binade x = (if 2 powi c \<le> x then c else c - 1)"
    by (simp add: binade_def q c_def Let_def)
  show "2 powi binade x \<le> x"
    using lo by (simp add: bin)
  show "x < 2 powi (binade x + 1)"
    using up by (auto simp add: bin)
qed

lemma binade_unique:
  assumes "0 < x" "2 powi e \<le> x" "x < 2 powi (e + 1)"
  shows "binade x = e"
proof -
  have "(2::rat) powi e < 2 powi (binade x + 1)"
    using assms(2) binade_bounds(2) [OF assms(1)] by (rule le_less_trans)
  then have 1: "e < binade x + 1"
    by (rule powi_less_imp)
  have "(2::rat) powi binade x < 2 powi (e + 1)"
    using binade_bounds(1) [OF assms(1)] assms(3) by (rule le_less_trans)
  then have 2: "binade x < e + 1"
    by (rule powi_less_imp)
  from 1 2 show ?thesis by simp
qed

lemma fl_nonneg: "0 \<le> fl x"
proof (cases "x \<le> 0")
  case True then show ?thesis by (simp add: fl_def)
next
  case False
  then have "0 \<le> rne (x / 2 powi (binade x - 52))"
    using rne_mono [of 0 "x / 2 powi (binade x - 52)"] by simp
  with False show ?thesis by (simp add: fl_def Let_def)
qed

lemma fl_exact:
  assumes "0 < x" "2 powi e \<le> x" "x < 2 powi (e + 1)" "x = of_int n * 2 powi (e - 52)"
  shows "fl x = x"
proof -
  have "binade x = e" using assms(1-3) by (rule binade_unique)
  moreover have "x / 2 powi (e - 52) = of_int n"
    using assms(4) by simp
  ultimately show ?thesis using assms(1,4) by (simp add: fl_def Let_def)
qed

lemma fl_range:
  assumes "0 < x"
  shows "2 powi binade x \<le> fl x" and "fl x \<le> 2 powi (binade x + 1)"
proof -
  define q :: rat where "q = 2 powi (binade x - 52)"
  have q: "0 < q" by (simp add: q_def)
  have fl: "fl x = of_int (rne (x / q)) * q"
    using assms by (simp add: fl_def q_def Let_def)
  have lo: "2 powi binade x = of_int (2 ^ 52) * q"
    by (simp add: q_def power_int_diff)
  have hi: "2 powi (binade x + 1) = of_int (2 ^ 53) * q"
    by (simp add: q_def power_int_diff power_int_add)
  have "of_int (2 ^ 52) \<le> x / q"
    using binade_bounds(1) [OF assms] q unfolding lo by (simp add: pos_le_divide_eq)
  then have "rne (of_int (2 ^ 52)) \<le> rne (x / q)" by (rule rne_mono)
  then have "(of_int (2 ^ 52) :: rat) \<le> of_int (rne (x / q))"
    unfolding rne_of_int by (simp only: of_int_le_iff)
  then show "2 powi binade x \<le> fl x"
    unfolding lo fl using q by (simp only: mult_le_cancel_right_pos)
  have "x / q \<le> of_int (2 ^ 53)"
    using binade_bounds(2) [OF assms] q unfolding hi by (simp add: pos_divide_le_eq)
  then have "rne (x / q) \<le> rne (of_int (2 ^ 53))" by (rule rne_mono)
  then have "(of_int (rne (x / q)) :: rat) \<le> of_int (2 ^ 53)"
    unfolding rne_of_int by (simp only: of_int_le_iff)
  then show "fl x \<le> 2 powi (binade x + 1)"
    unfolding hi fl using q by (simp only: mult_le_cancel_right_pos)
qed

lemma fl_mono:
  assumes "x \<le> y" shows "fl x \<le> fl y"
proof (cases "x \<le> 0")
  case True
  then show ?thesis using fl_nonneg [of y] by (simp add: fl_def)
next
  case False
  then have x: "0 < x" and y: "0 < y" using assms by simp_all
  have "(2::rat) powi binade x < 2 powi (binade y + 1)"
    using binade_bounds(1) [OF x] assms binade_bounds(2) [OF y] by linarith
  then have "binade x < binade y + 1"
    by (rule powi_less_imp)
  then have le: "binade x \<le> binade y" by simp
  show ?thesis
  proof (cases "binade x = binade y")
    case True
    have "rne (x / 2 powi (binade y - 52)) \<le> rne (y / 2 powi (binade y - 52))"
      using assms by (intro rne_mono) (simp add: divide_right_mono)
    then have "(of_int (rne (x / 2 powi (binade y - 52))) :: rat)
        \<le> of_int (rne (y / 2 powi (binade y - 52)))"
      by (simp only: of_int_le_iff)
    then show ?thesis
      using x y True by (simp add: fl_def Let_def)
  next
    case False
    with le have "binade x + 1 \<le> binade y" by simp
    then have "(2::rat) powi (binade x + 1) \<le> 2 powi binade y"
      by (intro power_int_increasing) simp_all
    with fl_range(2) [OF x] fl_range(1) [OF y] show ?thesis by linarith
  qed
qed

lemma to_double_finite: "fl x < overflow_threshold \<Longrightarrow> to_double x = Finite (fl x)"
  by (simp add: to_double_def)

lemma powi_nat: "(2::rat) powi (int i + k) = 2 ^ i * 2 powi k"
  by (simp add: power_int_add)

lemma fl_pow2: "fl (2 ^ i) = 2 ^ i"
proof (rule fl_exact [where e = "int i" and n = "2 ^ 52"])
  show "(2::rat) ^ i = of_int (2 ^ 52) * 2 powi (int i - 52)"
    using powi_nat [of i "- 52"] by simp
qed (simp_all add: power_int_add)

lemma fl_base: "fl (2 ^ i * 2000) = 2 ^ i * 2000"
proof (rule fl_exact [where e = "int i + 10" and n = "125 * 2 ^ 46"])
  show "(2::rat) ^ i * 2000 = of_int (125 * 2 ^ 46) * 2 powi (int i + 10 - 52)"
    using powi_nat [of i "- 42"] by simp
  show "(2::rat) powi (int i + 10) \<le> 2 ^ i * 2000"
    by (simp add: powi_nat)
  have "int i + 10 + 1 = int i + 11" by simp
  then show "(2::rat) ^ i * 2000 < 2 powi (int i + 10 + 1)"
    by (simp only: powi_nat) simp
qed simp

lemma fl_1000: "fl 1000 = 1000"
  by code_simp

lemma fl_top_table:
  "list_all (\<lambda>i. fl (2 ^ i * 2000 + 1000) \<le> 2 ^ i * 2000 + 1000) [0..<48]"
  "list_all (\<lambda>i. fl (2 ^ i * 2000 + 1000) < 2 ^ i * 2000 + 1000) [46..<48]"
  "list_all (\<lambda>i. fl (2 ^ i * 2000 + 1000) \<le> 2 ^ i * 2000 + 1024) [48..<53]"
  by code_simp+

lemma fl_top:
  "i \<le> 47 \<Longrightarrow> fl (2 ^ i * 2000 + 1000) \<le> 2 ^ i * 2000 + 1000"
  "46 \<le> i \<Longrightarrow> i \<le> 47 \<Longrightarrow> fl (2 ^ i * 2000 + 1000) < 2 ^ i * 2000 + 1000"
  "48 \<le> i \<Longrightarrow> i \<le> 52 \<Longrightarrow> fl (2 ^ i * 2000 + 1000) \<le> 2 ^ i * 2000 + 1024"
proof -
  have 1: "\<forall>i \<in> set [0..<48]. fl (2 ^ i * 2000 + 1000) \<le> 2 ^ i * 2000 + 1000"
    using fl_top_table(1) by (simp only: list_all_iff)
  have 2: "\<forall>i \<in> set [46..<48]. fl (2 ^ i * 2000 + 1000) < 2 ^ i * 2000 + 1000"
    using fl_top_table(2) by (simp only: list_all_iff)
  have 3: "\<forall>i \<in> set [48..<53]. fl (2 ^ i * 2000 + 1000) \<le> 2 ^ i * 2000 + 1024"
    using fl_top_table(3) by (simp only: list_all_iff)
  show "fl (2 ^ i * 2000 + 1000) \<le> 2 ^ i * 2000 + 1000" if "i \<le> 47"
  proof -
    from that have "i \<in> set [0..<48]" by (simp only: set_upt atLeastLessThan_iff) simp
    with 1 show ?thesis by (rule bspec)
  qed
  show "fl (2 ^ i * 2000 + 1000) < 2 ^ i * 2000 + 1000" if "46 \<le> i" "i \<le> 47"
  proof -
    from that have "i \<in> set [46..<48]" by (simp only: set_upt atLeastLessThan_iff) simp
    with 2 show ?thesis by (rule bspec)
  qed
  show "fl (2 ^ i * 2000 + 1000) \<le> 2 ^ i * 2000 + 1024" if "48 \<le> i" "i \<le> 52"
  proof -
    from that have "i \<in> set [48..<53]" by (simp only: set_upt atLeastLessThan_iff) simp
    with 3 show ?thesis by (rule bspec)
  qed
qed

lemma fl_jitter:
  assumes "0 \<le> r" "r < 1" shows "0 \<le> fl (r * 1000)" and "fl (r * 1000) \<le> 1000"
proof -
  show "0 \<le> fl (r * 1000)" by (rule fl_nonneg)
  have "fl (r * 1000) \<le> fl 1000" using assms by (intro fl_mono) simp
  then show "fl (r * 1000) \<le> 1000" by (simp add: fl_1000)
qed

lemma rne_near:
  assumes "0 \<le> d" "d < 1 / 2" shows "rne (of_int n + d) = n"
proof -
  have "\<lfloor>of_int n + d\<rfloor> = n"
    using assms by (intro floor_unique) simp_all
  then show ?thesis using assms by (simp add: rne_def Let_def)
qed

text \<open>From \<open>i = 53\<close> on, doubles near \<open>2\<^sup>i \<cdot> 2000\<close> are at least 2048 apart: the jitter is lost.\<close>

lemma fl_absorbed:
  assumes "53 \<le> i" "0 \<le> j" "j \<le> 1000"
  shows "fl (2 ^ i * 2000 + j) = 2 ^ i * 2000"
proof -
  define q :: rat where "q = 2 ^ i / 2 ^ 42"
  have big: "(2::rat) ^ 53 \<le> 2 ^ i"
    using assms(1) by (intro power_increasing) simp_all
  then have one: "(1::rat) \<le> 2 ^ i" by simp
  have q: "0 < q" by (simp add: q_def)
  have powi: "(2::rat) powi (int i - 42) = q"
    using powi_nat [of i "- 42"] by (simp add: q_def power_int_minus field_simps)
  let ?x = "2 ^ i * 2000 + j"
  have pos: "0 < ?x" using assms(2) one by (simp add: add_pos_nonneg)
  have lo: "(2::rat) powi (int i + 10) \<le> ?x"
    using assms(2) by (simp add: powi_nat)
  have "(1000::rat) < 48 * 2 ^ 53" by simp
  with assms(3) big have "j < 48 * 2 ^ i" by linarith
  then have "?x < 2 ^ i * 2048" by simp
  moreover have "int i + 10 + 1 = int i + 11" by simp
  ultimately have hi: "?x < 2 powi (int i + 10 + 1)"
    by (simp only: powi_nat) simp
  have binade: "binade ?x = int i + 10"
    using pos lo hi by (rule binade_unique)
  have base: "2 ^ i * 2000 / q = of_int (125 * 2 ^ 46)"
    by (simp add: q_def)
  have "j / q = j * 2 ^ 42 / 2 ^ i" by (simp add: q_def)
  also have "\<dots> \<le> 1000 * 2 ^ 42 / 2 ^ 53"
    using assms(2,3) big by (intro frac_le mult_right_mono) simp_all
  also have "\<dots> < 1 / 2" by simp
  finally have small: "j / q < 1 / 2" .
  have "0 \<le> j / q" using assms(2) q by simp
  from this small have "rne (of_int (125 * 2 ^ 46) + j / q) = 125 * 2 ^ 46"
    by (rule rne_near)
  moreover have "?x / q = of_int (125 * 2 ^ 46) + j / q"
    by (simp only: add_divide_distrib base)
  ultimately have "rne (?x / q) = 125 * 2 ^ 46" by simp
  then have "fl ?x = of_int (125 * 2 ^ 46) * q"
    using pos by (simp add: fl_def Let_def binade powi)
  also have "\<dots> = 2 ^ i * 2000" by (simp add: q_def)
  finally show ?thesis .
qed

lemma fl_delay_bounds:
  assumes "0 \<le> r" "r < 1"
  shows "2 ^ i * 2000 \<le> fl (2 ^ i * 2000 + fl (r * 1000))"
    and "i \<le> 47 \<Longrightarrow> fl (2 ^ i * 2000 + fl (r * 1000)) \<le> 2 ^ i * 2000 + 1000"
    and "46 \<le> i \<Longrightarrow> i \<le> 47 \<Longrightarrow> fl (2 ^ i * 2000 + fl (r * 1000)) < 2 ^ i * 2000 + 1000"
    and "48 \<le> i \<Longrightarrow> i \<le> 52 \<Longrightarrow> fl (2 ^ i * 2000 + fl (r * 1000)) \<le> 2 ^ i * 2000 + 1024"
    and "53 \<le> i \<Longrightarrow> fl (2 ^ i * 2000 + fl (r * 1000)) = 2 ^ i * 2000"
proof -
  have "fl (2 ^ i * 2000) \<le> fl (2 ^ i * 2000 + fl (r * 1000))"
    using fl_jitter(1) [OF assms] by (intro fl_mono) simp
  then show "2 ^ i * 2000 \<le> fl (2 ^ i * 2000 + fl (r * 1000))"
    by (simp add: fl_base)
  have top: "fl (2 ^ i * 2000 + fl (r * 1000)) \<le> fl (2 ^ i * 2000 + 1000)"
    using fl_jitter(2) [OF assms] by (intro fl_mono) simp
  show "fl (2 ^ i * 2000 + fl (r * 1000)) \<le> 2 ^ i * 2000 + 1000" if "i \<le> 47"
    using top fl_top(1) [OF that] by (rule order_trans)
  show "fl (2 ^ i * 2000 + fl (r * 1000)) < 2 ^ i * 2000 + 1000" if "46 \<le> i" "i \<le> 47"
    using top fl_top(2) [OF that] by (rule le_less_trans)
  show "fl (2 ^ i * 2000 + fl (r * 1000)) \<le> 2 ^ i * 2000 + 1024" if "48 \<le> i" "i \<le> 52"
    using top fl_top(3) [OF that] by (rule order_trans)
  show "fl (2 ^ i * 2000 + fl (r * 1000)) = 2 ^ i * 2000" if "53 \<le> i"
    using that fl_jitter [OF assms] by (rule fl_absorbed)
qed

lemma fl_delay_below:
  assumes "0 \<le> r" "r < 1"
  shows "fl (2 ^ i * 2000 + fl (r * 1000)) \<le> 2 ^ i * 2000 + 1024"
proof -
  consider "i \<le> 47" | "48 \<le> i" "i \<le> 52" | "53 \<le> i" by linarith
  then show ?thesis
  proof cases
    case 1
    from fl_delay_bounds(2) [OF assms 1] show ?thesis by simp
  next
    case 2
    then show ?thesis by (rule fl_delay_bounds(4) [OF assms])
  next
    case 3
    from fl_delay_bounds(5) [OF assms 3] show ?thesis by simp
  qed
qed

text \<open>
  \<open>2\<^sup>i \<cdot> 2000\<close> is a finite double up to \<open>i = 1013\<close>; from \<open>i = 1014\<close> on the product
  overflows.
\<close>

lemma below_overflow: "i \<le> 1013 \<Longrightarrow> (2::rat) ^ i * 2000 + 1024 < overflow_threshold"
proof -
  assume "i \<le> 1013"
  then have "(2::rat) ^ i \<le> 2 ^ 1013" by (intro power_increasing) simp_all
  then have "(2::rat) ^ i * 2000 + 1024 \<le> 2 ^ 1013 * 2000 + 1024" by simp
  also have "\<dots> < overflow_threshold" by (simp add: overflow_threshold_def)
  finally show ?thesis .
qed

lemma above_overflow: "1014 \<le> i \<Longrightarrow> overflow_threshold \<le> (2::rat) ^ i * 2000"
proof -
  assume "1014 \<le> i"
  then have "(2::rat) ^ 1014 \<le> 2 ^ i" by (intro power_increasing) simp_all
  then have "(2::rat) ^ 1014 * 2000 \<le> 2 ^ i * 2000" by simp
  moreover have "overflow_threshold \<le> (2::rat) ^ 1014 * 2000"
    by (simp add: overflow_threshold_def)
  ultimately show ?thesis by (rule order_trans [rotated])
qed

lemma retry_delay_eq:
  assumes "(2::rat) ^ i * 2000 < overflow_threshold"
    and "fl (r * 1000) < overflow_threshold"
    and "fl (2 ^ i * 2000 + fl (r * 1000)) < overflow_threshold"
  shows "retry_delay i r = Finite (fl (2 ^ i * 2000 + fl (r * 1000)))"
proof -
  have "(2::rat) ^ i * 1 \<le> 2 ^ i * 2000"
    by (intro mult_left_mono) simp_all
  then have "(2::rat) ^ i \<le> 2 ^ i * 2000"
    by simp
  from this assms(1) have "fl (2 ^ i) < overflow_threshold"
    unfolding fl_pow2 by (rule le_less_trans)
  then have 1: "Math_pow2 i = Finite (2 ^ i)"
    by (simp add: Math_pow2_def to_double_finite fl_pow2)
  have "fl (2 ^ i * 2000) < overflow_threshold"
    using assms(1) by (simp add: fl_base)
  then have 2: "to_double (2 ^ i * 2000) = Finite (2 ^ i * 2000)"
    by (simp add: to_double_finite fl_base)
  have 3: "to_double (r * 1000) = Finite (fl (r * 1000))"
    using assms(2) by (simp add: to_double_finite)
  have 4: "to_double (2 ^ i * 2000 + fl (r * 1000)) = Finite (fl (2 ^ i * 2000 + fl (r * 1000)))"
    using assms(3) by (rule to_double_finite)
  show ?thesis
    by (simp add: retry_delay_def 1 2 3 4)
qed

lemma retry_delay_finite:
  assumes "0 \<le> r" "r < 1" "i \<le> 1013"
  shows "retry_delay i r = Finite (fl (2 ^ i * 2000 + fl (r * 1000)))"
proof (rule retry_delay_eq)
  have top: "(2::rat) ^ i * 2000 + 1024 < overflow_threshold"
    using assms(3) by (rule below_overflow)
  have pos: "0 \<le> (2::rat) ^ i * 2000" by simp
  from top show "(2::rat) ^ i * 2000 < overflow_threshold" by simp
  show "fl (r * 1000) < overflow_threshold"
    using fl_jitter(2) [OF assms(1,2)] top pos by linarith
  show "fl (2 ^ i * 2000 + fl (r * 1000)) < overflow_threshold"
    using fl_delay_below [OF assms(1,2), of i] top by linarith
qed

lemma retry_delay_infinite:
  assumes "1014 \<le> i" shows "retry_delay i r = Infinity"
proof -
  have over: "\<not> (2::rat) ^ i * 2000 < overflow_threshold"
    using above_overflow [OF assms] by simp
  have "js_times (Math_pow2 i) 2000 = Infinity"
  proof (cases "Math_pow2 i")
    case (Finite a)
    then have "a = 2 ^ i"
      by (simp add: Math_pow2_def to_double_def fl_pow2 Let_def split: if_splits)
    with Finite over show ?thesis
      by (simp add: to_double_def fl_base Let_def)
  next
    case Infinity
    then show ?thesis by simp
  qed
  then show ?thesis by (simp add: retry_delay_def)
qed

text \<open>
  The bounds on the delay, for every attempt number and every value that
  \<^verbatim>\<open>Math.random()\<close> can return.
\<close>

lemma retry_delay_bounds:
  assumes "0 \<le> r" "r < 1"
  shows "i \<le> 1013 \<Longrightarrow>
      \<exists>d. retry_delay i r = Finite d \<and> 2 ^ i * 2000 \<le> d
        \<and> (i \<le> 47 \<longrightarrow> d \<le> 2 ^ i * 2000 + 1000)
        \<and> (46 \<le> i \<and> i \<le> 47 \<longrightarrow> d < 2 ^ i * 2000 + 1000)
        \<and> (48 \<le> i \<and> i \<le> 52 \<longrightarrow> d \<le> 2 ^ i * 2000 + 1024)
        \<and> (53 \<le> i \<longrightarrow> d = 2 ^ i * 2000)"
    and "1014 \<le> i \<Longrightarrow> retry_delay i r = Infinity"
proof -
  show "retry_delay i r = Infinity" if "1014 \<le> i"
    using that by (rule retry_delay_infinite)
  assume "i \<le> 1013"
  with assms have "retry_delay i r = Finite (fl (2 ^ i * 2000 + fl (r * 1000)))"
    by (rule retry_delay_finite)
  with fl_delay_bounds [OF assms, of i] show
    "\<exists>d. retry_delay i r = Finite d \<and> 2 ^ i * 2000 \<le> d
        \<and> (i \<le> 47 \<longrightarrow> d \<le> 2 ^ i * 2000 + 1000)
        \<and> (46 \<le> i \<and> i \<le> 47 \<longrightarrow> d < 2 ^ i * 2000 + 1000)
        \<and> (48 \<le> i \<and> i \<le> 52 \<longrightarrow> d \<le> 2 ^ i * 2000 + 1024)
        \<and> (53 \<le> i \<longrightarrow> d = 2 ^ i * 2000)"
    by simp
qed

subsection \<open>Delays on examples\<close>

lemma delay_example_0: "fl (2 ^ 0 * 2000 + fl ((1 - 1 / 2 ^ 52) * 1000)) = 3000"
  by code_simp

lemma retry_delay_example_0: "retry_delay 0 (1 - 1 / 2 ^ 52) = Finite 3000"
proof -
  have "retry_delay 0 (1 - 1 / 2 ^ 52) = Finite (fl (2 ^ 0 * 2000 + fl ((1 - 1 / 2 ^ 52) * 1000)))"
    by (rule retry_delay_finite) simp_all
  then show ?thesis by (simp only: delay_example_0)
qed

lemma delay_example_1: "fl (2 ^ 1 * 2000 + fl ((1 - 1 / 2 ^ 52) * 1000)) = 5000"
  by code_simp

lemma retry_delay_example_1: "retry_delay 1 (1 - 1 / 2 ^ 52) = Finite 5000"
proof -
  have "retry_delay 1 (1 - 1 / 2 ^ 52) = Finite (fl (2 ^ 1 * 2000 + fl ((1 - 1 / 2 ^ 52) * 1000)))"
    by (rule retry_delay_finite) simp_all
  then show ?thesis by (simp only: delay_example_1)
qed

text \<open>
  At \<open>i = 48\<close> doubles are 64 apart: with \<^verbatim>\<open>Math.random()\<close> returning the double
  \<open>255 / 256\<close> the jitter is \<open>996.09375\<close> and the sum rounds up to \<open>2\<^sup>4\<^sup>8 \<cdot> 2000 + 1024\<close>.
\<close>

lemma delay_example_48: "fl (2 ^ 48 * 2000 + fl (255 / 256 * 1000)) = 2 ^ 48 * 2000 + 1024"
  by code_simp

lemma retry_delay_example_48: "retry_delay 48 (255 / 256) = Finite (2 ^ 48 * 2000 + 1024)"
proof -
  have "retry_delay 48 (255 / 256) = Finite (fl (2 ^ 48 * 2000 + fl (255 / 256 * 1000)))"
    by (rule retry_delay_finite) simp_all
  then show ?thesis by (simp only: delay_example_48)
qed
subsection \<open>The retry loop, one iteration at a time\<close>

lemma loop_exhausted: "\<not> i < n \<Longrightarrow> withRetry_loop P fn n i le env = (Inl le, env)"
  by (simp add: withRetry_loop.simps)

lemma loop_success:
  "i < n \<Longrightarrow> fn (world env) = (Inr v, w') \<Longrightarrow>
   withRetry_loop P fn n i le env = (Inr v, env\<lparr>world := w', trace := trace env @ [Invoke]\<rparr>)"
  by (simp add: withRetry_loop.simps)

lemma loop_rethrow:
  "i < n \<Longrightarrow> fn (world env) = (Inl e, w') \<Longrightarrow> isRateLimit P e = Inr limited \<Longrightarrow>
   \<not> (limited \<and> i < n - 1) \<Longrightarrow>
   withRetry_loop P fn n i le env = (Inl e, env\<lparr>world := w', trace := trace env @ [Invoke]\<rparr>)"
  by (subst withRetry_loop.simps) (auto simp add: Let_def)

lemma loop_raise:
  "i < n \<Longrightarrow> fn (world env) = (Inl e, w') \<Longrightarrow> isRateLimit P e = Inl raised \<Longrightarrow>
   withRetry_loop P fn n i le env = (Inl raised, env\<lparr>world := w', trace := trace env @ [Invoke]\<rparr>)"
  by (subst withRetry_loop.simps) (simp add: Let_def)

lemma loop_retry:
  "i + 1 < n \<Longrightarrow> fn (world env) = (Inl e, w') \<Longrightarrow> isRateLimit P e = Inr True \<Longrightarrow>
   withRetry_loop P fn n i le env = withRetry_loop P fn n (i + 1) e (after_failure n i w' env)"
  by (subst withRetry_loop.simps) (auto simp add: after_failure_def Let_def)

lemma outcome_0: "outcome fn w 0 = fst (fn w)"
  by (simp add: outcome_def)

lemma outcome_Suc: "outcome fn w (Suc k) = outcome fn (snd (fn w)) k"
  by (simp add: outcome_def)

lemma after_failure_simps [simp]:
  "world (after_failure n i w' env) = w'"
  "random_source (after_failure n i w' env) = random_source env"
  "drawn (after_failure n i w' env) = Suc (drawn env)"
  "trace (after_failure n i w' env) = trace env @ retry_events n (random_source env) i (drawn env) 1"
  by (simp_all add: after_failure_def)

lemma invocations_append [simp]: "invocations (xs @ ys) = invocations xs + invocations ys"
  by (simp add: invocations_def)

lemma invocations_Invoke [simp]: "invocations [Invoke] = 1"
  by (simp add: invocations_def)

lemma invocations_retry_events [simp]: "invocations (retry_events n rnd i d m) = m"
  by (induction m arbitrary: i d) (simp_all add: invocations_def Let_def)

lemma retry_events_snoc:
  "retry_events n rnd i d (Suc m) =
   retry_events n rnd i d m @ retry_events n rnd (i + m) (d + m) 1"
  by (induction m arbitrary: i d) (simp_all add: Let_def)

lemma rate_limited_cases:
  assumes "rate_limited P (fst (fn w))"
  obtains e w' where "fn w = (Inl e, w')" "isRateLimit P e = Inr True"
  using assms by (cases "fn w"; cases "fst (fn w)") auto

text \<open>When every attempt the limit allows is rate-limited.\<close>

lemma loop_all_rate_limited:
  assumes "i < n" and "\<forall>k < n - i. rate_limited P (outcome fn (world env) k)"
  shows "withRetry_loop P fn n i le env =
    (outcome fn (world env) (n - i - 1),
     env\<lparr>world := world_after fn (n - i) (world env),
         drawn := drawn env + (n - i - 1),
         trace := trace env @ retry_events n (random_source env) i (drawn env) (n - i - 1)
                  @ [Invoke]\<rparr>)"
  using assms
proof (induction "n - i - 1" arbitrary: i env le)
  case 0
  then have last: "\<not> i < n - 1" and "n - i = 1" by simp_all
  from "0.prems" have "rate_limited P (outcome fn (world env) 0)" by simp
  then obtain e w' where fn: "fn (world env) = (Inl e, w')" "isRateLimit P e = Inr True"
    by (auto simp: outcome_0 elim: rate_limited_cases)
  have "withRetry_loop P fn n i le env = (Inl e, env\<lparr>world := w', trace := trace env @ [Invoke]\<rparr>)"
    using \<open>i < n\<close> fn last by (intro loop_rethrow [where limited = True]) simp_all
  then show ?case
    using fn(1) \<open>n - i = 1\<close> "0.hyps" by (simp add: outcome_0)
next
  case (Suc m)
  then have more: "i + 1 < n" by simp
  from Suc.prems have "rate_limited P (outcome fn (world env) 0)" by simp
  then obtain e w' where fn: "fn (world env) = (Inl e, w')" "isRateLimit P e = Inr True"
    by (auto simp: outcome_0 elim: rate_limited_cases)
  let ?env = "after_failure n i w' env"
  have step: "withRetry_loop P fn n i le env = withRetry_loop P fn n (i + 1) e ?env"
    using more fn by (rule loop_retry)
  have m: "m = n - (i + 1) - 1" using Suc.hyps(2) by simp
  have rest: "\<forall>k < n - (i + 1). rate_limited P (outcome fn (world ?env) k)"
  proof (intro allI impI)
    fix k assume "k < n - (i + 1)"
    then have "Suc k < n - i" by simp
    with Suc.prems have "rate_limited P (outcome fn (world env) (Suc k))" by blast
    then show "rate_limited P (outcome fn (world ?env) k)"
      using fn(1) by (simp add: outcome_Suc)
  qed
  have n: "n - i = Suc (Suc m)" "n - Suc i = Suc m" using Suc.hyps(2) more by simp_all
  show ?case
    unfolding step Suc.hyps(1) [OF m more rest]
    using fn(1) n by (simp add: outcome_Suc Let_def)
qed

text \<open>The trace only grows, and an attempt within the limit begins with a call.\<close>

lemma loop_extends: "\<exists>rest. trace (snd (withRetry_loop P fn n i le env)) = trace env @ rest"
proof (induction "n - i" arbitrary: i env le)
  case 0
  then show ?case by (simp add: loop_exhausted)
next
  case (Suc m)
  then have i: "i < n" by simp
  obtain r w' where fn: "fn (world env) = (r, w')" by (cases "fn (world env)")
  show ?case
  proof (cases r)
    case (Inr v)
    with i fn show ?thesis by (simp add: loop_success)
  next
    case (Inl e)
    show ?thesis
    proof (cases "isRateLimit P e")
      case raised: (Inl raised)
      with i fn Inl show ?thesis by (simp add: loop_raise)
    next
      case limited: (Inr limited)
      show ?thesis
      proof (cases "limited \<and> i < n - 1")
        case False
        with i fn Inl limited show ?thesis by (simp add: loop_rethrow [where limited = limited])
      next
        case True
        then have more: "i + 1 < n" and yes: "isRateLimit P e = Inr True"
          using limited by auto
        have m: "m = n - (i + 1)" using Suc.hyps(2) by simp
        from Suc.hyps(1) [OF m] obtain rest where
          "trace (snd (withRetry_loop P fn n (i + 1) e (after_failure n i w' env)))
           = trace (after_failure n i w' env) @ rest"
          by blast
        with more fn Inl yes show ?thesis
          by (simp add: loop_retry)
      qed
    qed
  qed
qed

lemma loop_invokes:
  assumes "i < n"
  shows "\<exists>rest. trace (snd (withRetry_loop P fn n i le env)) = trace env @ Invoke # rest"
proof -
  obtain r w' where fn: "fn (world env) = (r, w')" by (cases "fn (world env)")
  show ?thesis
  proof (cases r)
    case (Inr v)
    with assms fn show ?thesis by (simp add: loop_success)
  next
    case (Inl e)
    show ?thesis
    proof (cases "isRateLimit P e")
      case raised: (Inl raised)
      with assms fn Inl show ?thesis by (simp add: loop_raise)
    next
      case limited: (Inr limited)
      show ?thesis
      proof (cases "limited \<and> i < n - 1")
        case False
        with assms fn Inl limited show ?thesis by (simp add: loop_rethrow [where limited = limited])
      next
        case True
        then have more: "i + 1 < n" and yes: "isRateLimit P e = Inr True"
          using limited by auto
        from loop_extends obtain rest where
          "trace (snd (withRetry_loop P fn n (i + 1) e (after_failure n i w' env)))
           = trace (after_failure n i w' env) @ rest"
          by blast
        with more fn Inl yes show ?thesis
          by (simp add: loop_retry Let_def)
      qed
    qed
  qed
qed

text \<open>When the first \<open>m\<close> attempts are rate-limited and one more is allowed.\<close>

lemma loop_prefix:
  assumes "i + m < n" and "\<forall>k < m. rate_limited P (outcome fn (world env) k)"
  shows "\<exists>rest. trace (snd (withRetry_loop P fn n i le env)) =
     trace env @ retry_events n (random_source env) i (drawn env) m @ Invoke # rest"
  using assms
proof (induction m arbitrary: i env le)
  case 0
  then show ?case using loop_invokes [where i = i and n = n and P = P and fn = fn and le = le and env = env] by simp
next
  case (Suc m)
  then have more: "i + 1 < n" by simp
  from Suc.prems have "rate_limited P (outcome fn (world env) 0)" by simp
  then obtain e w' where fn: "fn (world env) = (Inl e, w')" "isRateLimit P e = Inr True"
    by (auto simp: outcome_0 elim: rate_limited_cases)
  let ?env = "after_failure n i w' env"
  have step: "withRetry_loop P fn n i le env = withRetry_loop P fn n (i + 1) e ?env"
    using more fn by (rule loop_retry)
  have rest: "\<forall>k < m. rate_limited P (outcome fn (world ?env) k)"
  proof (intro allI impI)
    fix k assume "k < m"
    then have "Suc k < Suc m" by simp
    with Suc.prems have "rate_limited P (outcome fn (world env) (Suc k))" by blast
    then show "rate_limited P (outcome fn (world ?env) k)"
      using fn(1) by (simp add: outcome_Suc)
  qed
  have "i + 1 + m < n" using Suc.prems(1) by simp
  from Suc.IH [OF this rest, of e] obtain rest where
    "trace (snd (withRetry_loop P fn n (i + 1) e ?env)) =
     trace ?env @ retry_events n (random_source ?env) (i + 1) (drawn ?env) m @ Invoke # rest"
    by blast
  then show ?case
    unfolding step by (simp add: Let_def)
qed

subsection \<open>Claims about the retry wrapper\<close>

lemma isRateLimit_raises:
  "isRateLimit P e = Inl raised \<longleftrightarrow>
     status_of e \<noteq> Some 429 \<and> code_of e \<noteq> Some 429
     \<and> ((\<exists>b. message_of e = JBool b) \<or> (\<exists>n. message_of e = JNumber n)
        \<or> (\<exists>ms. message_of e = JObject ms))
     \<and> raised = TypeError (not_a_function_message P ''error?.message?.includes'' ''429'')"
  by (cases "message_of e") (auto simp: isRateLimit_def message_includes_def)

text \<open>
  Claim C4, as the code has it. When the limit allows an attempt and the operation fails
  with an error that the wrapper classifies as no rate limit, the wrapper calls the
  operation once and rethrows that error at once: the run adds one call to the trace and
  nothing else, so no warning, no delay, no random number and no second call. When the
  classification itself throws, the run is the same but for the error raised, which is
  the \<^verbatim>\<open>TypeError\<close> of the classification and not the error of the operation; that
  happens exactly when neither \<^verbatim>\<open>status\<close> nor \<^verbatim>\<open>code\<close> is 429 and \<^verbatim>\<open>message\<close> is a
  boolean, a number or an object.
\<close>

theorem withRetry_rethrows_other_errors:
  assumes "0 < maxRetries" and "fn (world env) = (Inl e, w')"
  shows "(isRateLimit P e = Inr False \<longrightarrow>
       withRetry P fn maxRetries env =
         (Inl e, env\<lparr>world := w', trace := trace env @ [Invoke]\<rparr>))
     \<and> (\<forall>raised. isRateLimit P e = Inl raised \<longrightarrow>
          withRetry P fn maxRetries env =
            (Inl raised, env\<lparr>world := w', trace := trace env @ [Invoke]\<rparr>)
          \<and> raised = TypeError (not_a_function_message P ''error?.message?.includes'' ''429''))
     \<and> ((\<exists>raised. isRateLimit P e = Inl raised) \<longleftrightarrow>
          status_of e \<noteq> Some 429 \<and> code_of e \<noteq> Some 429
          \<and> ((\<exists>b. message_of e = JBool b) \<or> (\<exists>n. message_of e = JNumber n)
             \<or> (\<exists>ms. message_of e = JObject ms)))"
proof (intro conjI impI allI)
  assume "isRateLimit P e = Inr False"
  with assms show "withRetry P fn maxRetries env =
      (Inl e, env\<lparr>world := w', trace := trace env @ [Invoke]\<rparr>)"
    unfolding withRetry_def by (intro loop_rethrow [where limited = False]) simp_all
next
  fix raised assume raised: "isRateLimit P e = Inl raised"
  with assms show "withRetry P fn maxRetries env =
      (Inl raised, env\<lparr>world := w', trace := trace env @ [Invoke]\<rparr>)"
    unfolding withRetry_def by (intro loop_raise) simp_all
  from raised show "raised = TypeError (not_a_function_message P ''error?.message?.includes'' ''429'')"
    by (simp add: isRateLimit_raises)
next
  show "(\<exists>raised. isRateLimit P e = Inl raised) \<longleftrightarrow>
      status_of e \<noteq> Some 429 \<and> code_of e \<noteq> Some 429
      \<and> ((\<exists>b. message_of e = JBool b) \<or> (\<exists>n. message_of e = JNumber n)
         \<or> (\<exists>ms. message_of e = JObject ms))"
    by (simp add: isRateLimit_raises)
qed

lemma server_error_not_rate_limit:
  "isRateLimit P (ApiError (Some 500) None (JString ''Internal error'')) = Inr False"
  by (simp add: isRateLimit_def message_includes_def)

lemma numeric_message_raises:
  "isRateLimit example_platform (ApiError (Some 500) None (JNumber ''12345'')) =
     Inl (TypeError ''error?.message?.includes is not a function'')"
  by (simp add: isRateLimit_def message_includes_def example_platform_def)

theorem withRetry_rethrows_other_errors_witness:
  "withRetry example_platform server_error_operation 3 (example_env (1 / 2)) =
     (Inl (ApiError (Some 500) None (JString ''Internal error'')),
      (example_env (1 / 2))\<lparr>world := 1, trace := trace (example_env (1 / 2)) @ [Invoke]\<rparr>)
   \<and> withRetry example_platform numeric_message_operation 3 (example_env (1 / 2)) =
     (Inl (TypeError ''error?.message?.includes is not a function''),
      (example_env (1 / 2))\<lparr>world := 1, trace := trace (example_env (1 / 2)) @ [Invoke]\<rparr>)"
  using withRetry_rethrows_other_errors
    [where maxRetries = 3 and fn = server_error_operation and env = "example_env (1 / 2)"
       and e = "ApiError (Some 500) None (JString ''Internal error'')" and w' = 1
       and P = example_platform]
    withRetry_rethrows_other_errors
    [where maxRetries = 3 and fn = numeric_message_operation and env = "example_env (1 / 2)"
       and e = "ApiError (Some 500) None (JNumber ''12345'')" and w' = 1
       and P = example_platform]
  by (simp add: server_error_operation_def numeric_message_operation_def example_env_def
      server_error_not_rate_limit numeric_message_raises)

text \<open>
  Claim C4 as stated fails: an operation that fails with status 500 and the number 12345
  as its message has not failed with a rate limit, yet the wrapper raises another error
  than that of the operation, the \<^verbatim>\<open>TypeError\<close> that
  \<^verbatim>\<open>error?.message?.includes("429")\<close> throws on a number. The operation is called once.
\<close>

theorem withRetry_classification_raises_counterexample:
  "fst (numeric_message_operation 0) = Inl (ApiError (Some 500) None (JNumber ''12345''))
   \<and> isRateLimit example_platform (ApiError (Some 500) None (JNumber ''12345'')) \<noteq> Inr True
   \<and> withRetry example_platform numeric_message_operation 3 (example_env (1 / 2)) =
     (Inl (TypeError ''error?.message?.includes is not a function''),
      (example_env (1 / 2))\<lparr>world := 1, trace := [Invoke]\<rparr>)
   \<and> fst (withRetry example_platform numeric_message_operation 3 (example_env (1 / 2))) \<noteq>
     Inl (ApiError (Some 500) None (JNumber ''12345''))"
proof -
  have "withRetry_loop example_platform numeric_message_operation 3 0 Undefined (example_env (1 / 2)) =
     (Inl (TypeError ''error?.message?.includes is not a function''),
      (example_env (1 / 2))\<lparr>world := 1, trace := trace (example_env (1 / 2)) @ [Invoke]\<rparr>)"
    by (rule loop_raise [where e = "ApiError (Some 500) None (JNumber ''12345'')"])
       (simp_all add: numeric_message_operation_def example_env_def numeric_message_raises)
  then show ?thesis
    by (simp add: withRetry_def numeric_message_operation_def numeric_message_raises
        example_env_def)
qed

text \<open>
  Claim C6. When the first \<open>maxRetries\<close> calls of the operation all fail with
  rate-limit errors (and the limit is at least one), the wrapper raises the error of the
  last of them and has called the operation \<open>maxRetries\<close> times, no more.
\<close>

theorem withRetry_exhausted:
  assumes "0 < maxRetries"
    and "\<forall>k < maxRetries. rate_limited P (outcome fn (world env) k)"
  shows "\<exists>e. outcome fn (world env) (maxRetries - 1) = Inl e \<and> isRateLimit P e = Inr True \<and>
     fst (withRetry P fn maxRetries env) = Inl e \<and>
     invocations (trace (snd (withRetry P fn maxRetries env))) = invocations (trace env) + maxRetries \<and>
     world (snd (withRetry P fn maxRetries env)) = world_after fn maxRetries (world env)"
proof -
  from assms have "rate_limited P (outcome fn (world env) (maxRetries - 1))" by simp
  then obtain e where e: "outcome fn (world env) (maxRetries - 1) = Inl e" "isRateLimit P e = Inr True"
    by (cases "outcome fn (world env) (maxRetries - 1)") auto
  have "withRetry P fn maxRetries env =
    (outcome fn (world env) (maxRetries - 0 - 1),
     env\<lparr>world := world_after fn (maxRetries - 0) (world env),
         drawn := drawn env + (maxRetries - 0 - 1),
         trace := trace env @ retry_events maxRetries (random_source env) 0 (drawn env) (maxRetries - 0 - 1)
                  @ [Invoke]\<rparr>)"
    unfolding withRetry_def using assms by (intro loop_all_rate_limited) simp_all
  with e assms(1) show ?thesis by simp
qed

lemma rate_limited_operation_outcome:
  "rate_limited P (outcome rate_limited_operation w k)"
  by (simp add: outcome_def rate_limited_operation_def isRateLimit_def)

theorem withRetry_exhausted_witness:
  "fst (withRetry example_platform rate_limited_operation 3 (example_env (1 / 2))) =
     Inl (ApiError (Some 429) None JUndefined)
   \<and> invocations (trace (snd (withRetry example_platform rate_limited_operation 3
        (example_env (1 / 2))))) = 3
   \<and> world (snd (withRetry example_platform rate_limited_operation 3 (example_env (1 / 2)))) = 3"
  using withRetry_exhausted
    [where maxRetries = 3 and fn = rate_limited_operation and env = "example_env (1 / 2)"
       and P = example_platform]
  by (simp add: outcome_def rate_limited_operation_def isRateLimit_def example_env_def
      invocations_def eval_nat_numeral)

text \<open>
  Claim C5, as the code has it. When attempts \<open>0\<close> to \<open>i\<close> are all rate-limited and the
  limit allows attempt \<open>i + 1\<close>, then after the call of attempt \<open>i\<close> (the trace before it
  holds \<open>i\<close> calls) the wrapper warns, awaits a timer with the delay it has computed and
  only then calls the operation again. The delay is computed in doubles from \<open>i\<close> and the
  value \<open>r\<close> that \<^verbatim>\<open>Math.random()\<close> returns, \<open>0 \<le> r < 1\<close>. Up to \<open>i = 1013\<close> it is a finite
  number \<open>d\<close> of milliseconds with \<open>2\<^sup>i \<cdot> 2000 \<le> d\<close>, and
  \<^item> \<open>d \<le> 2\<^sup>i \<cdot> 2000 + 1000\<close> for \<open>i \<le> 47\<close>, where \<open>d < 2\<^sup>i \<cdot> 2000 + 1000\<close> for \<open>i\<close> = 46
    and 47;
  \<^item> \<open>d \<le> 2\<^sup>i \<cdot> 2000 + 1024\<close> for \<open>i\<close> from 48 to 52;
  \<^item> \<open>d = 2\<^sup>i \<cdot> 2000\<close> from \<open>i = 53\<close> on, where the jitter is below half the distance of
    two doubles.

  From \<open>i = 1014\<close> on the product overflows and the delay is \<^verbatim>\<open>Infinity\<close>.
\<close>

theorem withRetry_backoff_delay:
  assumes "i + 2 \<le> maxRetries"
    and "\<forall>k \<le> i. rate_limited P (outcome fn (world env) k)"
    and "\<forall>k. 0 \<le> random_source env k \<and> random_source env k < 1"
  shows "\<exists>before delay rest.
     trace (snd (withRetry P fn maxRetries env)) =
       trace env @ before
       @ [Invoke, Warn (Math_round delay) (i + 1) maxRetries, Sleep delay, Invoke] @ rest
     \<and> invocations before = i
     \<and> delay = retry_delay i (random_source env (drawn env + i))
     \<and> (i \<le> 1013 \<longrightarrow>
          (\<exists>d. delay = Finite d \<and> 2 ^ i * 2000 \<le> d
             \<and> (i \<le> 47 \<longrightarrow> d \<le> 2 ^ i * 2000 + 1000)
             \<and> (46 \<le> i \<and> i \<le> 47 \<longrightarrow> d < 2 ^ i * 2000 + 1000)
             \<and> (48 \<le> i \<and> i \<le> 52 \<longrightarrow> d \<le> 2 ^ i * 2000 + 1024)
             \<and> (53 \<le> i \<longrightarrow> d = 2 ^ i * 2000)))
     \<and> (1014 \<le> i \<longrightarrow> delay = Infinity)"
proof -
  let ?r = "random_source env (drawn env + i)"
  let ?delay = "retry_delay i ?r"
  from assms(3) have r: "0 \<le> ?r" "?r < 1" by simp_all
  have "0 + Suc i < maxRetries" using assms(1) by simp
  moreover have "\<forall>k < Suc i. rate_limited P (outcome fn (world env) k)"
    using assms(2) by (simp add: less_Suc_eq_le)
  ultimately obtain rest where
    "trace (snd (withRetry_loop P fn maxRetries 0 Undefined env)) =
     trace env @ retry_events maxRetries (random_source env) 0 (drawn env) (Suc i) @ Invoke # rest"
    using loop_prefix by blast
  then have "trace (snd (withRetry P fn maxRetries env)) =
     trace env @ retry_events maxRetries (random_source env) 0 (drawn env) i
     @ [Invoke, Warn (Math_round ?delay) (i + 1) maxRetries, Sleep ?delay, Invoke] @ rest"
    unfolding withRetry_def retry_events_snoc by (simp add: Let_def)
  moreover have "invocations (retry_events maxRetries (random_source env) 0 (drawn env) i) = i"
    by simp
  moreover have "i \<le> 1013 \<longrightarrow>
          (\<exists>d. ?delay = Finite d \<and> 2 ^ i * 2000 \<le> d
             \<and> (i \<le> 47 \<longrightarrow> d \<le> 2 ^ i * 2000 + 1000)
             \<and> (46 \<le> i \<and> i \<le> 47 \<longrightarrow> d < 2 ^ i * 2000 + 1000)
             \<and> (48 \<le> i \<and> i \<le> 52 \<longrightarrow> d \<le> 2 ^ i * 2000 + 1024)
             \<and> (53 \<le> i \<longrightarrow> d = 2 ^ i * 2000))"
    using retry_delay_bounds(1) [OF r] by blast
  moreover have "1014 \<le> i \<longrightarrow> ?delay = Infinity"
    using retry_delay_bounds(2) [OF r] by blast
  ultimately show ?thesis by blast
qed

lemma floor_half: "\<lfloor>(of_int n :: rat) + 1 / 2\<rfloor> = n"
  by (rule floor_unique) simp_all

lemma example_env_random: "\<forall>k. 0 \<le> random_source (example_env (1 / 2)) k
    \<and> random_source (example_env (1 / 2)) k < 1"
  by (simp add: example_env_def)

theorem withRetry_backoff_delay_witness:
  "(\<exists>before d rest.
      trace (snd (withRetry example_platform rate_limited_operation 3 (example_env (1 / 2)))) =
        trace (example_env (1 / 2)) @ before
        @ [Invoke, Warn (Math_round (Finite d)) (1 + 1) 3, Sleep (Finite d), Invoke] @ rest
      \<and> invocations before = 1
      \<and> 2 ^ 1 * 2000 \<le> d \<and> d \<le> 2 ^ 1 * 2000 + 1000)
   \<and> (\<exists>before d rest.
      trace (snd (withRetry example_platform rate_limited_operation 48 (example_env (1 / 2)))) =
        trace (example_env (1 / 2)) @ before
        @ [Invoke, Warn (Math_round (Finite d)) (46 + 1) 48, Sleep (Finite d), Invoke] @ rest
      \<and> invocations before = 46
      \<and> 2 ^ 46 * 2000 \<le> d \<and> d < 2 ^ 46 * 2000 + 1000)
   \<and> (\<exists>before d rest.
      trace (snd (withRetry example_platform rate_limited_operation 50 (example_env (1 / 2)))) =
        trace (example_env (1 / 2)) @ before
        @ [Invoke, Warn (Math_round (Finite d)) (48 + 1) 50, Sleep (Finite d), Invoke] @ rest
      \<and> invocations before = 48
      \<and> 2 ^ 48 * 2000 \<le> d \<and> d \<le> 2 ^ 48 * 2000 + 1024)
   \<and> (\<exists>before rest.
      trace (snd (withRetry example_platform rate_limited_operation 55 (example_env (1 / 2)))) =
        trace (example_env (1 / 2)) @ before
        @ [Invoke, Warn (Math_round (Finite (2 ^ 53 * 2000))) (53 + 1) 55,
           Sleep (Finite (2 ^ 53 * 2000)), Invoke] @ rest
      \<and> invocations before = 53)
   \<and> (\<exists>before rest.
      trace (snd (withRetry example_platform rate_limited_operation 1016 (example_env (1 / 2)))) =
        trace (example_env (1 / 2)) @ before
        @ [Invoke, Warn (Math_round Infinity) (1014 + 1) 1016, Sleep Infinity, Invoke] @ rest
      \<and> invocations before = 1014)"
proof -
  have "1 + 2 \<le> (3::nat)" by simp
  moreover have "\<forall>k \<le> 1. rate_limited example_platform
      (outcome rate_limited_operation (world (example_env (1 / 2))) k)"
    by (simp add: rate_limited_operation_outcome)
  ultimately obtain before delay rest where
    "trace (snd (withRetry example_platform rate_limited_operation 3 (example_env (1 / 2)))) =
       trace (example_env (1 / 2)) @ before
       @ [Invoke, Warn (Math_round delay) (1 + 1) 3, Sleep delay, Invoke] @ rest"
    "invocations before = 1"
    "(1::nat) \<le> 1013 \<longrightarrow>
       (\<exists>d. delay = Finite d \<and> 2 ^ 1 * 2000 \<le> d
          \<and> ((1::nat) \<le> 47 \<longrightarrow> d \<le> 2 ^ 1 * 2000 + 1000)
          \<and> ((46::nat) \<le> 1 \<and> (1::nat) \<le> 47 \<longrightarrow> d < 2 ^ 1 * 2000 + 1000)
          \<and> ((48::nat) \<le> 1 \<and> (1::nat) \<le> 52 \<longrightarrow> d \<le> 2 ^ 1 * 2000 + 1024)
          \<and> ((53::nat) \<le> 1 \<longrightarrow> d = 2 ^ 1 * 2000))"
    "(1014::nat) \<le> 1 \<longrightarrow> delay = Infinity"
    using withRetry_backoff_delay
      [where i = 1 and maxRetries = 3 and P = example_platform and fn = rate_limited_operation
         and env = "example_env (1 / 2)"] example_env_random
    by blast
  note run = this
  from run(3) obtain d where "delay = Finite d" "2 ^ 1 * 2000 \<le> d" "d \<le> 2 ^ 1 * 2000 + 1000"
    by auto
  with run(1,2) have "\<exists>before d rest.
      trace (snd (withRetry example_platform rate_limited_operation 3 (example_env (1 / 2)))) =
        trace (example_env (1 / 2)) @ before
        @ [Invoke, Warn (Math_round (Finite d)) (1 + 1) 3, Sleep (Finite d), Invoke] @ rest
      \<and> invocations before = 1
      \<and> 2 ^ 1 * 2000 \<le> d \<and> d \<le> 2 ^ 1 * 2000 + 1000"
    by blast
  note part1 = this
  have "46 + 2 \<le> (48::nat)" by simp
  moreover have "\<forall>k \<le> 46. rate_limited example_platform
      (outcome rate_limited_operation (world (example_env (1 / 2))) k)"
    by (simp add: rate_limited_operation_outcome)
  ultimately obtain before delay rest where
    "trace (snd (withRetry example_platform rate_limited_operation 48 (example_env (1 / 2)))) =
       trace (example_env (1 / 2)) @ before
       @ [Invoke, Warn (Math_round delay) (46 + 1) 48, Sleep delay, Invoke] @ rest"
    "invocations before = 46"
    "(46::nat) \<le> 1013 \<longrightarrow>
       (\<exists>d. delay = Finite d \<and> 2 ^ 46 * 2000 \<le> d
          \<and> ((46::nat) \<le> 47 \<longrightarrow> d \<le> 2 ^ 46 * 2000 + 1000)
          \<and> ((46::nat) \<le> 46 \<and> (46::nat) \<le> 47 \<longrightarrow> d < 2 ^ 46 * 2000 + 1000)
          \<and> ((48::nat) \<le> 46 \<and> (46::nat) \<le> 52 \<longrightarrow> d \<le> 2 ^ 46 * 2000 + 1024)
          \<and> ((53::nat) \<le> 46 \<longrightarrow> d = 2 ^ 46 * 2000))"
    "(1014::nat) \<le> 46 \<longrightarrow> delay = Infinity"
    using withRetry_backoff_delay
      [where i = 46 and maxRetries = 48 and P = example_platform and fn = rate_limited_operation
         and env = "example_env (1 / 2)"] example_env_random
    by blast
  note run = this
  from run(3) obtain d where "delay = Finite d" "2 ^ 46 * 2000 \<le> d" "d < 2 ^ 46 * 2000 + 1000"
    by auto
  with run(1,2) have "\<exists>before d rest.
      trace (snd (withRetry example_platform rate_limited_operation 48 (example_env (1 / 2)))) =
        trace (example_env (1 / 2)) @ before
        @ [Invoke, Warn (Math_round (Finite d)) (46 + 1) 48, Sleep (Finite d), Invoke] @ rest
      \<and> invocations before = 46
      \<and> 2 ^ 46 * 2000 \<le> d \<and> d < 2 ^ 46 * 2000 + 1000"
    by blast
  note part2 = this
  have "48 + 2 \<le> (50::nat)" by simp
  moreover have "\<forall>k \<le> 48. rate_limited example_platform
      (outcome rate_limited_operation (world (example_env (1 / 2))) k)"
    by (simp add: rate_limited_operation_outcome)
  ultimately obtain before delay rest where
    "trace (snd (withRetry example_platform rate_limited_operation 50 (example_env (1 / 2)))) =
       trace (example_env (1 / 2)) @ before
       @ [Invoke, Warn (Math_round delay) (48 + 1) 50, Sleep delay, Invoke] @ rest"
    "invocations before = 48"
    "(48::nat) \<le> 1013 \<longrightarrow>
       (\<exists>d. delay = Finite d \<and> 2 ^ 48 * 2000 \<le> d
          \<and> ((48::nat) \<le> 47 \<longrightarrow> d \<le> 2 ^ 48 * 2000 + 1000)
          \<and> ((46::nat) \<le> 48 \<and> (48::nat) \<le> 47 \<longrightarrow> d < 2 ^ 48 * 2000 + 1000)
          \<and> ((48::nat) \<le> 48 \<and> (48::nat) \<le> 52 \<longrightarrow> d \<le> 2 ^ 48 * 2000 + 1024)
          \<and> ((53::nat) \<le> 48 \<longrightarrow> d = 2 ^ 48 * 2000))"
    "(1014::nat) \<le> 48 \<longrightarrow> delay = Infinity"
    using withRetry_backoff_delay
      [where i = 48 and maxRetries = 50 and P = example_platform and fn = rate_limited_operation
         and env = "example_env (1 / 2)"] example_env_random
    by blast
  note run = this
  from run(3) obtain d where "delay = Finite d" "2 ^ 48 * 2000 \<le> d" "d \<le> 2 ^ 48 * 2000 + 1024"
    by auto
  with run(1,2) have "\<exists>before d rest.
      trace (snd (withRetry example_platform rate_limited_operation 50 (example_env (1 / 2)))) =
        trace (example_env (1 / 2)) @ before
        @ [Invoke, Warn (Math_round (Finite d)) (48 + 1) 50, Sleep (Finite d), Invoke] @ rest
      \<and> invocations before = 48
      \<and> 2 ^ 48 * 2000 \<le> d \<and> d \<le> 2 ^ 48 * 2000 + 1024"
    by blast
  note part3 = this
  have "53 + 2 \<le> (55::nat)" by simp
  moreover have "\<forall>k \<le> 53. rate_limited example_platform
      (outcome rate_limited_operation (world (example_env (1 / 2))) k)"
    by (simp add: rate_limited_operation_outcome)
  ultimately obtain before delay rest where
    "trace (snd (withRetry example_platform rate_limited_operation 55 (example_env (1 / 2)))) =
       trace (example_env (1 / 2)) @ before
       @ [Invoke, Warn (Math_round delay) (53 + 1) 55, Sleep delay, Invoke] @ rest"
    "invocations before = 53"
    "(53::nat) \<le> 1013 \<longrightarrow>
       (\<exists>d. delay = Finite d \<and> 2 ^ 53 * 2000 \<le> d
          \<and> ((53::nat) \<le> 47 \<longrightarrow> d \<le> 2 ^ 53 * 2000 + 1000)
          \<and> ((46::nat) \<le> 53 \<and> (53::nat) \<le> 47 \<longrightarrow> d < 2 ^ 53 * 2000 + 1000)
          \<and> ((48::nat) \<le> 53 \<and> (53::nat) \<le> 52 \<longrightarrow> d \<le> 2 ^ 53 * 2000 + 1024)
          \<and> ((53::nat) \<le> 53 \<longrightarrow> d = 2 ^ 53 * 2000))"
    "(1014::nat) \<le> 53 \<longrightarrow> delay = Infinity"
    using withRetry_backoff_delay
      [where i = 53 and maxRetries = 55 and P = example_platform and fn = rate_limited_operation
         and env = "example_env (1 / 2)"] example_env_random
    by blast
  note run = this
  from run(3) have "delay = Finite (2 ^ 53 * 2000)"
    by auto
  with run(1,2) have "\<exists>before rest.
      trace (snd (withRetry example_platform rate_limited_operation 55 (example_env (1 / 2)))) =
        trace (example_env (1 / 2)) @ before
        @ [Invoke, Warn (Math_round (Finite (2 ^ 53 * 2000))) (53 + 1) 55,
           Sleep (Finite (2 ^ 53 * 2000)), Invoke] @ rest
      \<and> invocations before = 53"
    by blast
  note part4 = this
  have "1014 + 2 \<le> (1016::nat)" by simp
  moreover have "\<forall>k \<le> 1014. rate_limited example_platform
      (outcome rate_limited_operation (world (example_env (1 / 2))) k)"
    by (simp add: rate_limited_operation_outcome)
  ultimately obtain before delay rest where
    "trace (snd (withRetry example_platform rate_limited_operation 1016 (example_env (1 / 2)))) =
       trace (example_env (1 / 2)) @ before
       @ [Invoke, Warn (Math_round delay) (1014 + 1) 1016, Sleep delay, Invoke] @ rest"
    "invocations before = 1014"
    "(1014::nat) \<le> 1013 \<longrightarrow>
       (\<exists>d. delay = Finite d \<and> 2 ^ 1014 * 2000 \<le> d
          \<and> ((1014::nat) \<le> 47 \<longrightarrow> d \<le> 2 ^ 1014 * 2000 + 1000)
          \<and> ((46::nat) \<le> 1014 \<and> (1014::nat) \<le> 47 \<longrightarrow> d < 2 ^ 1014 * 2000 + 1000)
          \<and> ((48::nat) \<le> 1014 \<and> (1014::nat) \<le> 52 \<longrightarrow> d \<le> 2 ^ 1014 * 2000 + 1024)
          \<and> ((53::nat) \<le> 1014 \<longrightarrow> d = 2 ^ 1014 * 2000))"
    "(1014::nat) \<le> 1014 \<longrightarrow> delay = Infinity"
    using withRetry_backoff_delay
      [where i = 1014 and maxRetries = 1016 and P = example_platform and fn = rate_limited_operation
         and env = "example_env (1 / 2)"] example_env_random
    by blast
  note run = this
  from run(4) have "delay = Infinity"
    by simp
  with run(1,2) have "\<exists>before rest.
      trace (snd (withRetry example_platform rate_limited_operation 1016 (example_env (1 / 2)))) =
        trace (example_env (1 / 2)) @ before
        @ [Invoke, Warn (Math_round Infinity) (1014 + 1) 1016, Sleep Infinity, Invoke] @ rest
      \<and> invocations before = 1014"
    by blast
  note part5 = this
  from part1 part2 part3 part4 part5 show ?thesis by blast
qed

text \<open>
  With \<^verbatim>\<open>Math.random()\<close> returning the double \<open>1 - 2\<^sup>-\<^sup>5\<^sup>2\<close> the jitter rounds to
  \<open>1000 - 2\<^sup>-\<^sup>4\<^sup>2\<close>: the delay is \<open>2\<^sup>i \<cdot> 2000 + 1000\<close> for every \<open>i \<le> 45\<close>, and
  \<open>2\<^sup>i \<cdot> 2000 + 1024\<close> for \<open>i\<close> from 48 to 52.
\<close>

lemma strict_bound_fails_table:
  "list_all (\<lambda>i. fl (2 ^ i * 2000 + fl ((1 - 1 / 2 ^ 52) * 1000)) = 2 ^ i * 2000 + 1000) [0..<46]"
  "list_all (\<lambda>i. fl (2 ^ i * 2000 + fl ((1 - 1 / 2 ^ 52) * 1000)) = 2 ^ i * 2000 + 1024) [48..<53]"
  by code_simp+

lemma doubles_of_the_examples:
  "fl (1 - 1 / 2 ^ 52) = 1 - 1 / 2 ^ 52" "fl (255 / 256) = 255 / 256"
  by code_simp+

text \<open>
  Claim C5 as stated fails twice. With \<^verbatim>\<open>Math.random()\<close> returning \<open>1 - 2\<^sup>-\<^sup>5\<^sup>2\<close> the
  first delay is 3000 milliseconds, not less than \<open>2\<^sup>0 \<cdot> 2000 + 1000\<close>; and at \<open>i = 48\<close>,
  where doubles are 64 apart, with \<^verbatim>\<open>Math.random()\<close> returning \<open>255 / 256\<close> the delay is
  rounded up to \<open>2\<^sup>4\<^sup>8 \<cdot> 2000 + 1024\<close>. Both values of \<^verbatim>\<open>Math.random()\<close> are doubles.
\<close>

theorem backoff_delay_strict_bound_counterexample:
  "trace (snd (withRetry example_platform rate_limited_operation 3
       (example_env (1 - 1 / 2 ^ 52)))) =
     [Invoke, Warn (Finite 3000) 1 3, Sleep (Finite 3000),
      Invoke, Warn (Finite 5000) 2 3, Sleep (Finite 5000), Invoke]
   \<and> \<not> (3000 :: rat) < 2 ^ 0 * 2000 + 1000
   \<and> fl (1 - 1 / 2 ^ 52) = 1 - 1 / 2 ^ 52
   \<and> retry_delay 48 (255 / 256) = Finite (2 ^ 48 * 2000 + 1024)
   \<and> \<not> (2 :: rat) ^ 48 * 2000 + 1024 < 2 ^ 48 * 2000 + 1000
   \<and> fl (255 / 256) = 255 / 256"
proof -
  let ?env = "example_env (1 - 1 / 2 ^ 52)"
  have "withRetry_loop example_platform rate_limited_operation 3 0 Undefined ?env =
    (outcome rate_limited_operation (world ?env) (3 - 0 - 1),
     ?env\<lparr>world := world_after rate_limited_operation (3 - 0) (world ?env),
         drawn := drawn ?env + (3 - 0 - 1),
         trace := trace ?env @ retry_events 3 (random_source ?env) 0 (drawn ?env) (3 - 0 - 1)
                  @ [Invoke]\<rparr>)"
    by (rule loop_all_rate_limited) (simp_all add: rate_limited_operation_outcome)
  then have "trace (snd (withRetry example_platform rate_limited_operation 3 ?env)) =
     trace ?env @ retry_events 3 (random_source ?env) 0 (drawn ?env) 2 @ [Invoke]"
    by (simp add: withRetry_def)
  also have "\<dots> = [Invoke, Warn (Finite 3000) 1 3, Sleep (Finite 3000),
      Invoke, Warn (Finite 5000) 2 3, Sleep (Finite 5000), Invoke]"
    by (simp add: example_env_def eval_nat_numeral Let_def
        retry_delay_example_0 [simplified] retry_delay_example_1 [simplified]
        floor_half [of 3000, simplified] floor_half [of 5000, simplified])
  finally show ?thesis
    using retry_delay_example_48 doubles_of_the_examples by simp
qed
subsection \<open>One attempt that settles the call\<close>

lemma withRetry_success:
  "0 < n \<Longrightarrow> fn (world env) = (Inr v, w') \<Longrightarrow>
   withRetry P fn n env = (Inr v, env\<lparr>world := w', trace := trace env @ [Invoke]\<rparr>)"
  unfolding withRetry_def by (rule loop_success)

lemma withRetry_rethrow:
  "0 < n \<Longrightarrow> fn (world env) = (Inl e, w') \<Longrightarrow> isRateLimit P e = Inr False \<Longrightarrow>
   withRetry P fn n env = (Inl e, env\<lparr>world := w', trace := trace env @ [Invoke]\<rparr>)"
  unfolding withRetry_def by (rule loop_rethrow [where limited = False]) simp_all

lemma generateContent_response:
  "provider req w = (Inr resp, w') \<Longrightarrow> generateContent provider req extract w = (extract resp, w')"
  by (simp add: generateContent_def)

lemma failing_provider_call:
  "withRetry P (generateContent failing_provider req extract) 3 env =
     (Inl (ApiError (Some 500) None (JString ''Internal error'')),
      env\<lparr>world := Suc (world env), trace := trace env @ [Invoke]\<rparr>)"
  by (rule withRetry_rethrow)
     (simp_all add: generateContent_def failing_provider_def server_error_not_rate_limit)

lemma text_provider_call:
  "withRetry P (generateContent (text_provider t) req (\<lambda>resp. Inr (f resp))) 3 env =
     (Inr (f \<lparr>response_text = t, response_parts = []\<rparr>),
      env\<lparr>world := Suc (world env), trace := trace env @ [Invoke]\<rparr>)"
  by (rule withRetry_success) (simp_all add: generateContent_def text_provider_def)

subsection \<open>Claims about \<^verbatim>\<open>generateFeedbackSummary\<close>\<close>

lemma parse_empty_object: "parse_json ''{}'' = Some (JObject [])"
  by code_simp

lemma parse_example_payload:
  "parse_json example_payload =
     Some (JObject [(''feedbackCard'', JString ''A''), (''healingSentence'', JString ''B''),
       (''theme'', JString ''calm''),
       (''designConfig'', JObject [(''textColor'', JString ''light''),
          (''textPosition'', JString ''center''), (''fontStyle'', JString ''serif'')])])"
  by code_simp

lemma parse_not_json: "parse_json ''not json'' = None"
  by code_simp

lemma feedback_of_empty_response:
  assumes "\<not> truthy_text (response_text resp)"
  shows "feedback_of_response P resp =
     Inr \<lparr>feedbackCard = JUndefined, healingSentence = JUndefined, theme = JUndefined,
          fullText = Some (''undefined'' @ [CHR 0x0A, CHR 0x0A] @ ''undefined''),
          designConfig = JUndefined\<rparr>"
proof -
  from assms have "or_else (response_text resp) ''{}'' = ''{}''"
    by (cases "response_text resp") (simp_all add: or_else_def)
  then show ?thesis
    by (simp add: feedback_of_response_def JSON_parse_def parse_empty_object blank_line_join_def)
qed

lemma feedback_of_unparsable_response:
  assumes "response_text resp = Some t" and "t \<noteq> []" and "parse_json t = None"
  shows "feedback_of_response P resp = Inl (SyntaxError (json_error_message P t))"
  using assms by (simp add: feedback_of_response_def JSON_parse_def or_else_def)

lemma feedback_of_example_payload:
  assumes "response_text resp = Some example_payload"
  shows "feedback_of_response P resp = Inr example_feedback"
proof -
  have "example_payload \<noteq> []" by (simp add: example_payload_def)
  with assms have "or_else (response_text resp) ''{}'' = example_payload"
    by (simp add: or_else_def)
  then show ?thesis
    by (simp add: feedback_of_response_def JSON_parse_def parse_example_payload
        blank_line_join_def example_feedback_def)
qed

text \<open>
  Claim C7. When the provider answers the request with the payload of the example,
  \<^verbatim>\<open>generateFeedbackSummary\<close> returns, after that one call, the four parsed fields as
  they stand in the payload and \<^verbatim>\<open>fullText\<close> equal to \<^verbatim>\<open>A\<close>, two line feeds, \<^verbatim>\<open>B\<close>.
\<close>

theorem generateFeedbackSummary_example_payload:
  assumes "provider \<lparr>apiKey = getAI P customKey, body = FeedbackSummaryPrompt formal\<rparr>
             (world env) = (Inr resp, w')"
    and "response_text resp = Some example_payload"
  shows "generateFeedbackSummary P provider formal customKey env =
     (Inr \<lparr>feedbackCard = JString ''A'', healingSentence = JString ''B'', theme = JString ''calm'',
           fullText = Some (''A'' @ [CHR 0x0A, CHR 0x0A] @ ''B''),
           designConfig = JObject [(''textColor'', JString ''light''),
                                   (''textPosition'', JString ''center''),
                                   (''fontStyle'', JString ''serif'')]\<rparr>,
      env\<lparr>world := w', trace := trace env @ [Invoke]\<rparr>)"
proof -
  have "generateContent provider
          \<lparr>apiKey = getAI P customKey, body = FeedbackSummaryPrompt formal\<rparr>
          (feedback_of_response P) (world env) = (Inr example_feedback, w')"
    using assms by (simp add: generateContent_response feedback_of_example_payload)
  then have "generateFeedbackSummary P provider formal customKey env =
     (Inr example_feedback, env\<lparr>world := w', trace := trace env @ [Invoke]\<rparr>)"
    unfolding generateFeedbackSummary_def by (intro withRetry_success) simp_all
  then show ?thesis by (simp add: example_feedback_def)
qed

theorem generateFeedbackSummary_example_payload_witness:
  "generateFeedbackSummary example_platform (text_provider (Some example_payload)) ''# record'' None
     (example_env 0) =
     (Inr \<lparr>feedbackCard = JString ''A'', healingSentence = JString ''B'', theme = JString ''calm'',
           fullText = Some (''A'' @ [CHR 0x0A, CHR 0x0A] @ ''B''),
           designConfig = JObject [(''textColor'', JString ''light''),
                                   (''textPosition'', JString ''center''),
                                   (''fontStyle'', JString ''serif'')]\<rparr>,
      (example_env 0)\<lparr>world := 1, trace := trace (example_env 0) @ [Invoke]\<rparr>)"
  using generateFeedbackSummary_example_payload
    [of "text_provider (Some example_payload)" example_platform None "''# record''" "example_env 0"
        "\<lparr>response_text = Some example_payload, response_parts = []\<rparr>" 1]
  by (simp add: text_provider_def example_env_def)

text \<open>
  Claim C2, as the code has it. The empty object stands in for a response text that is
  absent or empty, and only for that: then \<^verbatim>\<open>generateFeedbackSummary\<close> returns after
  one call a result whose fields \<^verbatim>\<open>feedbackCard\<close>, \<^verbatim>\<open>healingSentence\<close>, \<^verbatim>\<open>theme\<close> and
  \<^verbatim>\<open>designConfig\<close> are undefined (and whose \<^verbatim>\<open>fullText\<close> is the word \<^verbatim>\<open>undefined\<close> twice,
  two line feeds between). On any other text that \<^verbatim>\<open>JSON.parse\<close> rejects the attempt
  throws the parser's \<^verbatim>\<open>SyntaxError\<close>, and unless the message of that error classifies
  as a rate limit, \<^verbatim>\<open>generateFeedbackSummary\<close> raises it after that one call.
\<close>

theorem generateFeedbackSummary_parse_fallback:
  assumes "provider \<lparr>apiKey = getAI P customKey, body = FeedbackSummaryPrompt formal\<rparr>
             (world env) = (Inr resp, w')"
  shows "(\<not> truthy_text (response_text resp) \<longrightarrow>
       generateFeedbackSummary P provider formal customKey env =
         (Inr \<lparr>feedbackCard = JUndefined, healingSentence = JUndefined, theme = JUndefined,
               fullText = Some (''undefined'' @ [CHR 0x0A, CHR 0x0A] @ ''undefined''),
               designConfig = JUndefined\<rparr>,
          env\<lparr>world := w', trace := trace env @ [Invoke]\<rparr>))
     \<and> (\<forall>t. response_text resp = Some t \<and> t \<noteq> [] \<and> parse_json t = None \<longrightarrow>
          generateContent provider
            \<lparr>apiKey = getAI P customKey, body = FeedbackSummaryPrompt formal\<rparr>
            (feedback_of_response P) (world env) = (Inl (SyntaxError (json_error_message P t)), w')
          \<and> (isRateLimit P (SyntaxError (json_error_message P t)) = Inr False \<longrightarrow>
               generateFeedbackSummary P provider formal customKey env =
                 (Inl (SyntaxError (json_error_message P t)),
                  env\<lparr>world := w', trace := trace env @ [Invoke]\<rparr>)))"
proof (intro conjI impI allI)
  assume "\<not> truthy_text (response_text resp)"
  then have "generateContent provider
          \<lparr>apiKey = getAI P customKey, body = FeedbackSummaryPrompt formal\<rparr>
          (feedback_of_response P) (world env) =
        (Inr \<lparr>feedbackCard = JUndefined, healingSentence = JUndefined, theme = JUndefined,
               fullText = Some (''undefined'' @ [CHR 0x0A, CHR 0x0A] @ ''undefined''),
               designConfig = JUndefined\<rparr>, w')"
    using assms by (simp add: generateContent_response feedback_of_empty_response)
  then show "generateFeedbackSummary P provider formal customKey env =
         (Inr \<lparr>feedbackCard = JUndefined, healingSentence = JUndefined, theme = JUndefined,
               fullText = Some (''undefined'' @ [CHR 0x0A, CHR 0x0A] @ ''undefined''),
               designConfig = JUndefined\<rparr>,
          env\<lparr>world := w', trace := trace env @ [Invoke]\<rparr>)"
    unfolding generateFeedbackSummary_def by (intro withRetry_success) simp_all
next
  fix t
  assume t: "response_text resp = Some t \<and> t \<noteq> [] \<and> parse_json t = None"
  then show attempt: "generateContent provider
            \<lparr>apiKey = getAI P customKey, body = FeedbackSummaryPrompt formal\<rparr>
            (feedback_of_response P) (world env) = (Inl (SyntaxError (json_error_message P t)), w')"
    using assms by (simp add: generateContent_response feedback_of_unparsable_response)
  assume "isRateLimit P (SyntaxError (json_error_message P t)) = Inr False"
  with attempt show "generateFeedbackSummary P provider formal customKey env =
                 (Inl (SyntaxError (json_error_message P t)),
                  env\<lparr>world := w', trace := trace env @ [Invoke]\<rparr>)"
    unfolding generateFeedbackSummary_def by (intro withRetry_rethrow) simp_all
qed

theorem generateFeedbackSummary_parse_fallback_witness:
  "generateFeedbackSummary example_platform (text_provider None) ''# record'' None (example_env 0) =
     (Inr \<lparr>feedbackCard = JUndefined, healingSentence = JUndefined, theme = JUndefined,
           fullText = Some (''undefined'' @ [CHR 0x0A, CHR 0x0A] @ ''undefined''),
           designConfig = JUndefined\<rparr>,
      (example_env 0)\<lparr>world := 1, trace := trace (example_env 0) @ [Invoke]\<rparr>)
   \<and> generateFeedbackSummary example_platform (text_provider (Some ''[1,'')) ''# record'' None
       (example_env 0) =
     (Inl (SyntaxError ''Unexpected token in JSON''),
      (example_env 0)\<lparr>world := 1, trace := trace (example_env 0) @ [Invoke]\<rparr>)"
proof -
  have unparsable: "parse_json ''[1,'' = None"
    by code_simp
  have other: "\<And>P. isRateLimit P (SyntaxError ''Unexpected token in JSON'') = Inr False"
    by (simp add: isRateLimit_def message_includes_def)
  show ?thesis
    using generateFeedbackSummary_parse_fallback
      [of "text_provider None" example_platform None "''# record''" "example_env 0"
          "\<lparr>response_text = None, response_parts = []\<rparr>" 1]
      generateFeedbackSummary_parse_fallback
      [of "text_provider (Some ''[1,'')" example_platform None "''# record''" "example_env 0"
          "\<lparr>response_text = Some ''[1,'', response_parts = []\<rparr>" 1]
    by (simp add: text_provider_def example_env_def example_platform_def unparsable other)
qed

text \<open>
  Claim C2 as stated fails: on the text \<^verbatim>\<open>not json\<close>, which is no JSON,
  \<^verbatim>\<open>generateFeedbackSummary\<close> raises the \<^verbatim>\<open>SyntaxError\<close>.
\<close>

theorem generateFeedbackSummary_raises_on_unparsable:
  "fst (generateFeedbackSummary example_platform (text_provider (Some ''not json'')) ''# record'' None
     (example_env 0)) = Inl (SyntaxError ''Unexpected token in JSON'')"
proof -
  have "generateContent (text_provider (Some ''not json''))
          \<lparr>apiKey = getAI example_platform None, body = FeedbackSummaryPrompt ''# record''\<rparr>
          (feedback_of_response example_platform) (world (example_env 0)) =
        (Inl (SyntaxError ''Unexpected token in JSON''), 1)"
    by (simp add: generateContent_def text_provider_def example_env_def
        feedback_of_unparsable_response parse_not_json example_platform_def)
  moreover have "isRateLimit example_platform (SyntaxError ''Unexpected token in JSON'') = Inr False"
    by (simp add: isRateLimit_def message_includes_def)
  ultimately show ?thesis
    unfolding generateFeedbackSummary_def by (simp add: withRetry_rethrow)
qed

subsection \<open>Claims about \<^verbatim>\<open>generateCardImage\<close>\<close>

lemma auto_is_a_style: "''auto'' \<in> set (map fst IMAGE_STYLES)"
  by (simp add: IMAGE_STYLES_def)

text \<open>
  Claim C10, as the code has it. For a style key that is no key of the table and no
  member inherited from \<^verbatim>\<open>Object.prototype\<close>, and no prompt given, \<^verbatim>\<open>generateCardImage\<close>
  raises no error of its own: it builds its prompt from the \<^verbatim>\<open>warm_book\<close> template, the
  theme and the closing ban on text, and sends that to the provider.
\<close>

theorem generateCardImage_unknown_style:
  assumes "styleKey \<notin> set (map fst IMAGE_STYLES)"
    and "styleKey \<notin> set Object_prototype_functions" and "styleKey \<noteq> ''__proto__''"
    and "\<not> truthy_text rawPrompt"
  shows "finalPrompt P theme_text (Some styleKey) rawPrompt =
       style_warm_book @ '' Theme: '' @ theme_text @ ''. '' @ no_text_suffix
     \<and> generateCardImage P provider theme_text (Some styleKey) rawPrompt customKey =
       withRetry P
         (generateContent provider
            \<lparr>apiKey = getAI P customKey,
             body = CardImagePrompt
                      (style_warm_book @ '' Theme: '' @ theme_text @ ''. '' @ no_text_suffix)\<rparr>
            (\<lambda>resp. Inr (first_image (response_parts resp))))
         3"
proof -
  from assms(1) have "map_of IMAGE_STYLES styleKey = None"
    by (simp add: map_of_eq_None_iff)
  with assms(2,3) have entry: "style_or_warm_book styleKey = StyleTemplate style_warm_book"
    by (simp add: style_or_warm_book_def IMAGE_STYLES_get_def)
  from assms(1) auto_is_a_style have "styleKey \<noteq> ''auto''" by metis
  with entry have "styledPrompt P theme_text styleKey =
      style_warm_book @ '' Theme: '' @ theme_text @ ''. '' @ no_text_suffix"
    by (simp add: styledPrompt_def)
  with assms(4) have "finalPrompt P theme_text (Some styleKey) rawPrompt =
       style_warm_book @ '' Theme: '' @ theme_text @ ''. '' @ no_text_suffix"
    by (cases rawPrompt) (simp_all add: finalPrompt_def)
  then show ?thesis
    by (simp add: generateCardImage_def)
qed

theorem generateCardImage_unknown_style_witness:
  "finalPrompt example_platform ''calm'' (Some ''watercolor'') None =
       style_warm_book @ '' Theme: '' @ ''calm'' @ ''. '' @ no_text_suffix
     \<and> generateCardImage example_platform failing_provider ''calm'' (Some ''watercolor'') None None =
       withRetry example_platform
         (generateContent failing_provider
            \<lparr>apiKey = getAI example_platform None,
             body = CardImagePrompt
                      (style_warm_book @ '' Theme: '' @ ''calm'' @ ''. '' @ no_text_suffix)\<rparr>
            (\<lambda>resp. Inr (first_image (response_parts resp))))
         3"
  using generateCardImage_unknown_style
    [of "''watercolor''" None example_platform "''calm''" failing_provider None]
  by (simp add: IMAGE_STYLES_def Object_prototype_functions_def)

text \<open>
  Claim C10 as stated fails: \<^verbatim>\<open>__proto__\<close> is no key of the table, yet
  \<^verbatim>\<open>IMAGE_STYLES['__proto__']\<close> is the prototype object, which is truthy, and the prompt
  starts with \<^verbatim>\<open>[object Object]\<close> in place of the \<^verbatim>\<open>warm_book\<close> template.
\<close>

theorem generateCardImage_inherited_key_counterexample:
  "''__proto__'' \<notin> set (map fst IMAGE_STYLES)
   \<and> finalPrompt example_platform ''calm'' (Some ''__proto__'') None =
       ''[object Object] Theme: calm. '' @ no_text_suffix
   \<and> finalPrompt example_platform ''calm'' (Some ''__proto__'') None \<noteq>
       style_warm_book @ '' Theme: '' @ ''calm'' @ ''. '' @ no_text_suffix"
  by (simp add: finalPrompt_def styledPrompt_def style_or_warm_book_def IMAGE_STYLES_get_def
      IMAGE_STYLES_def Object_prototype_functions_def style_warm_book_def)

subsection \<open>Claims about the handlers\<close>

lemma strip_whitespace_only: "whitespace_only s \<Longrightarrow> strip white_space s = []"
  by (induction s rule: whitespace_only.induct) (auto split: option.splits)

lemma trim_whitespace_only: "whitespace_only s \<Longrightarrow> trim s = []"
  by (simp add: trim_def trimStart_def trimEnd_def strip_whitespace_only)

text \<open>
  Claim C8. When the input is empty or made of white space only,
  \<^verbatim>\<open>handleGenerateRecord\<close> returns at its guard: the state of the component is the one
  before (so the stage stays where it was, \<open>Initial\<close> on the first screen), and so is the
  outside world and the trace, which gains no call to the provider.
\<close>

theorem handleGenerateRecord_blank_input:
  assumes "whitespace_only (input s)"
  shows "handleGenerateRecord P provider s env = (s, env)"
  using assms by (simp add: handleGenerateRecord_def trim_whitespace_only)

lemma blank_example: "whitespace_only ('' '' @ [CHR 0x09, CHR 0xE3, CHR 0x80, CHR 0x80, CHR 0x0A])"
  by code_simp

theorem handleGenerateRecord_blank_input_witness:
  "handleGenerateRecord example_platform failing_provider
     (initial_state\<lparr>input := '' '' @ [CHR 0x09, CHR 0xE3, CHR 0x80, CHR 0x80, CHR 0x0A]\<rparr>)
     (example_env 0) =
   (initial_state\<lparr>input := '' '' @ [CHR 0x09, CHR 0xE3, CHR 0x80, CHR 0x80, CHR 0x0A]\<rparr>,
    example_env 0)
   \<and> step (initial_state\<lparr>input := '' '' @ [CHR 0x09, CHR 0xE3, CHR 0x80, CHR 0x80, CHR 0x0A]\<rparr>)
     = Initial"
  using handleGenerateRecord_blank_input
    [of "initial_state\<lparr>input := '' '' @ [CHR 0x09, CHR 0xE3, CHR 0x80, CHR 0x80, CHR 0x0A]\<rparr>"
        example_platform failing_provider "example_env 0"]
    blank_example
  by (simp add: initial_state_def)

lemma handleRefine_keeps_image:
  "cardImage (fst (handleRefine P provider s env)) = cardImage s"
  "imagePrompt (fst (handleRefine P provider s env)) = imagePrompt s"
  by (auto simp: handleRefine_def Let_def split: if_splits prod.splits sum.splits)

text \<open>
  Claim C9. The button back to the feedback sets the stage to \<open>Feedback\<close> and nothing
  else: \<^verbatim>\<open>cardImage\<close> and \<^verbatim>\<open>imagePrompt\<close> keep the values they had at the stage \<open>Visual\<close>,
  and so does every other field of the pipeline state and of the component. A refinement
  of the text made after going back, whatever its outcome, still finds and leaves them
  so: they change only when an image is generated again (or on reset).
\<close>

theorem backToFeedback_keeps_image:
  "step (backToFeedback s) = Feedback
   \<and> cardImage (backToFeedback s) = cardImage s
   \<and> imagePrompt (backToFeedback s) = imagePrompt s
   \<and> pipeline (backToFeedback s) = (pipeline s)\<lparr>currentStage := Feedback\<rparr>
   \<and> backToFeedback s = s\<lparr>step := Feedback\<rparr>
   \<and> cardImage (fst (handleRefine P provider (backToFeedback s) env)) = cardImage s
   \<and> imagePrompt (fst (handleRefine P provider (backToFeedback s) env)) = imagePrompt s"
  by (simp add: handleRefine_keeps_image) (simp add: backToFeedback_def pipeline_def)

subsection \<open>Where \<^verbatim>\<open>fullText\<close> comes from\<close>

lemma loop_returns:
  "fst (withRetry_loop P fn n i le env) = Inr v \<Longrightarrow> \<exists>w. fst (fn w) = Inr v"
proof (induction "n - i" arbitrary: i env le)
  case 0
  then show ?case by (simp add: loop_exhausted)
next
  case (Suc m)
  then have i: "i < n" by simp
  obtain r w' where fn: "fn (world env) = (r, w')" by (cases "fn (world env)")
  show ?case
  proof (cases r)
    case (Inr v')
    with i fn Suc.prems have "v' = v" by (simp add: loop_success)
    with fn Inr have "fst (fn (world env)) = Inr v" by simp
    then show ?thesis ..
  next
    case (Inl e)
    show ?thesis
    proof (cases "isRateLimit P e")
      case raised: (Inl raised)
      with i fn Inl Suc.prems show ?thesis by (simp add: loop_raise)
    next
      case limited: (Inr limited)
      show ?thesis
      proof (cases "limited \<and> i < n - 1")
        case False
        with i fn Inl limited Suc.prems show ?thesis
          by (simp add: loop_rethrow [where limited = limited])
      next
        case True
        then have more: "i + 1 < n" and yes: "isRateLimit P e = Inr True"
          using limited by auto
        have m: "m = n - (i + 1)" using Suc.hyps(2) by simp
        from more fn Inl yes Suc.prems
        have "fst (withRetry_loop P fn n (i + 1) e (after_failure n i w' env)) = Inr v"
          by (simp add: loop_retry)
        with Suc.hyps(1) [OF m] show ?thesis .
      qed
    qed
  qed
qed

lemma withRetry_returns: "fst (withRetry P fn n env) = Inr v \<Longrightarrow> \<exists>w. fst (fn w) = Inr v"
  unfolding withRetry_def by (rule loop_returns)

lemma generateContent_returns:
  "fst (generateContent provider req extract w) = Inr v \<Longrightarrow> \<exists>resp. extract resp = Inr v"
  by (auto simp: generateContent_def split: prod.splits sum.splits)

lemma get_member_Inr: "get_member P v k = Inr x \<Longrightarrow> x = own_member v k"
  by (cases v) auto

lemma feedback_of_response_joined:
  assumes "feedback_of_response P resp = Inr fb"
  shows "\<exists>a b. to_string P (feedbackCard fb) = Inr a \<and> to_string P (healingSentence fb) = Inr b
     \<and> fullText fb = Some (blank_line_join a b)"
  using assms
  by (auto simp: feedback_of_response_def split: sum.splits dest!: get_member_Inr)

lemma generateFeedbackSummary_joined:
  assumes "fst (generateFeedbackSummary P provider formal customKey env) = Inr fb"
  shows "\<exists>a b. to_string P (feedbackCard fb) = Inr a \<and> to_string P (healingSentence fb) = Inr b
     \<and> fullText fb = Some (blank_line_join a b)"
proof -
  from assms obtain w where
    "fst (generateContent provider
            \<lparr>apiKey = getAI P customKey, body = FeedbackSummaryPrompt formal\<rparr>
            (feedback_of_response P) w) = Inr fb"
    unfolding generateFeedbackSummary_def by (blast dest: withRetry_returns)
  then obtain resp where "feedback_of_response P resp = Inr fb"
    by (blast dest: generateContent_returns)
  then show ?thesis by (rule feedback_of_response_joined)
qed

lemma with_fullText_joined:
  assumes "with_fullText P summary = Inr fb"
  shows "\<exists>a b. to_string P (feedbackCard fb) = Inr a \<and> to_string P (healingSentence fb) = Inr b
     \<and> fullText fb = Some (blank_line_join a b)"
  using assms by (auto simp: with_fullText_def split: sum.splits)

lemma handleGoToFeedback_joined:
  assumes "error (fst (handleGoToFeedback P provider s env)) = None"
  shows "\<exists>fb a b. feedback (fst (handleGoToFeedback P provider s env)) = Some fb
     \<and> to_string P (feedbackCard fb) = Inr a \<and> to_string P (healingSentence fb) = Inr b
     \<and> fullText fb = Some (blank_line_join a b)"
proof -
  obtain r env' where call:
    "generateFeedbackSummary P provider (formalRecord s) (Some (userApiKey s)) env = (r, env')"
    by (cases "generateFeedbackSummary P provider (formalRecord s) (Some (userApiKey s)) env")
  show ?thesis
  proof (cases r)
    case (Inl e)
    with call assms show ?thesis by (simp add: handleGoToFeedback_def)
  next
    case (Inr summary)
    show ?thesis
    proof (cases "with_fullText P summary")
      case (Inl e)
      with call Inr assms show ?thesis by (simp add: handleGoToFeedback_def)
    next
      case fb: (Inr fb)
      with call Inr have "feedback (fst (handleGoToFeedback P provider s env)) = Some fb"
        by (simp add: handleGoToFeedback_def)
      with with_fullText_joined [OF fb] show ?thesis by blast
    qed
  qed
qed

lemma handleRefine_feedback:
  assumes "trim (refinementInput s) \<noteq> []" and "step s \<noteq> Record"
    and "refineContent P provider
           (case feedback s of None \<Rightarrow> [] | Some fb \<Rightarrow> or_else (fullText fb) [])
           (refinementInput s) FeedbackKind (Some (userApiKey s)) env = (Inr refined, env')"
  shows "fst (handleRefine P provider s env) =
     s\<lparr>feedback := map_option (\<lambda>prev. prev\<lparr>fullText := refined\<rparr>) (feedback s),
       refinementInput := [], isRefining := False, error := None\<rparr>"
  using assms by (simp add: handleRefine_def Let_def)

text \<open>
  Claim C3, as the code has it. \<^verbatim>\<open>fullText\<close> is the join of the two text fields, as they
  print, a blank line between, when the feedback is produced: in every result of
  \<^verbatim>\<open>generateFeedbackSummary\<close> and in the feedback that \<^verbatim>\<open>handleGoToFeedback\<close> stores. A
  refinement at the feedback stage does not recompute it: it puts the refined text in
  place of \<^verbatim>\<open>fullText\<close> and leaves \<^verbatim>\<open>feedbackCard\<close> and \<^verbatim>\<open>healingSentence\<close> as they were.
\<close>

theorem fullText_joined_then_replaced:
  "(fst (generateFeedbackSummary P provider formal customKey env) = Inr fb \<longrightarrow>
      (\<exists>a b. to_string P (feedbackCard fb) = Inr a \<and> to_string P (healingSentence fb) = Inr b
         \<and> fullText fb = Some (blank_line_join a b)))
   \<and> (error (fst (handleGoToFeedback P provider s env)) = None \<longrightarrow>
      (\<exists>stored a b. feedback (fst (handleGoToFeedback P provider s env)) = Some stored
         \<and> to_string P (feedbackCard stored) = Inr a
         \<and> to_string P (healingSentence stored) = Inr b
         \<and> fullText stored = Some (blank_line_join a b)))
   \<and> (trim (refinementInput s) \<noteq> [] \<and> step s \<noteq> Record
       \<and> refineContent P provider
           (case feedback s of None \<Rightarrow> [] | Some prev \<Rightarrow> or_else (fullText prev) [])
           (refinementInput s) FeedbackKind (Some (userApiKey s)) env = (Inr refined, env') \<longrightarrow>
      feedback (fst (handleRefine P provider s env)) =
        map_option (\<lambda>prev. prev\<lparr>fullText := refined\<rparr>) (feedback s))"
proof (intro conjI impI)
  assume "fst (generateFeedbackSummary P provider formal customKey env) = Inr fb"
  then show "\<exists>a b. to_string P (feedbackCard fb) = Inr a
      \<and> to_string P (healingSentence fb) = Inr b \<and> fullText fb = Some (blank_line_join a b)"
    by (rule generateFeedbackSummary_joined)
next
  assume "error (fst (handleGoToFeedback P provider s env)) = None"
  then show "\<exists>stored a b. feedback (fst (handleGoToFeedback P provider s env)) = Some stored
         \<and> to_string P (feedbackCard stored) = Inr a
         \<and> to_string P (healingSentence stored) = Inr b
         \<and> fullText stored = Some (blank_line_join a b)"
    by (rule handleGoToFeedback_joined)
next
  assume "trim (refinementInput s) \<noteq> [] \<and> step s \<noteq> Record
       \<and> refineContent P provider
           (case feedback s of None \<Rightarrow> [] | Some prev \<Rightarrow> or_else (fullText prev) [])
           (refinementInput s) FeedbackKind (Some (userApiKey s)) env = (Inr refined, env')"
  then show "feedback (fst (handleRefine P provider s env)) =
        map_option (\<lambda>prev. prev\<lparr>fullText := refined\<rparr>) (feedback s)"
    by (simp add: handleRefine_feedback)
qed

subsection \<open>The handlers on examples\<close>

lemma trim_examples:
  "trim ''shorter'' = ''shorter''" "trim ''notes'' = ''notes''" "trim ''brighter'' = ''brighter''"
  by code_simp+

lemma example_payload_run:
  "generateFeedbackSummary example_platform (text_provider (Some example_payload)) formal customKey env =
     (Inr example_feedback, env\<lparr>world := Suc (world env), trace := trace env @ [Invoke]\<rparr>)"
  unfolding generateFeedbackSummary_def
  by (rule withRetry_success)
     (simp_all add: generateContent_def text_provider_def feedback_of_example_payload)

lemma answer_then_fail_first:
  "world env = 0 \<Longrightarrow>
   withRetry P (generateContent (answer_then_fail t) req (\<lambda>resp. Inr (f resp))) 3 env =
     (Inr (f \<lparr>response_text = Some t, response_parts = []\<rparr>),
      env\<lparr>world := 1, trace := trace env @ [Invoke]\<rparr>)"
  by (rule withRetry_success) (simp_all add: generateContent_def answer_then_fail_def)

lemma answer_then_fail_later:
  "world env \<noteq> 0 \<Longrightarrow>
   withRetry P (generateContent (answer_then_fail t) req extract) 3 env =
     (Inl (ApiError (Some 500) None (JString ''Internal error'')),
      env\<lparr>world := Suc (world env), trace := trace env @ [Invoke]\<rparr>)"
  by (rule withRetry_rethrow)
     (simp_all add: generateContent_def answer_then_fail_def server_error_not_rate_limit)

lemma example_feedback_prints:
  "to_string P (feedbackCard example_feedback) = Inr ''A''"
  "to_string P (healingSentence example_feedback) = Inr ''B''"
  "fullText example_feedback = Some (blank_line_join ''A'' ''B'')"
  by (simp_all add: example_feedback_def blank_line_join_def)

lemma refine_example:
  "fst (handleRefine example_platform (text_provider (Some ''C'')) feedback_stage (example_env 0)) =
     feedback_stage\<lparr>feedback := Some (example_feedback\<lparr>fullText := Some ''C''\<rparr>),
       refinementInput := [], isRefining := False, error := None\<rparr>"
  by (simp add: handleRefine_def Let_def feedback_stage_def initial_state_def trim_examples
      refineContent_def text_provider_call)

theorem fullText_joined_then_replaced_witness:
  "(\<exists>a b. to_string example_platform (feedbackCard example_feedback) = Inr a
      \<and> to_string example_platform (healingSentence example_feedback) = Inr b
      \<and> fullText example_feedback = Some (blank_line_join a b))
   \<and> (\<exists>stored a b.
        feedback (fst (handleGoToFeedback example_platform (text_provider (Some example_payload))
          feedback_stage (example_env 0))) = Some stored
      \<and> to_string example_platform (feedbackCard stored) = Inr a
      \<and> to_string example_platform (healingSentence stored) = Inr b
      \<and> fullText stored = Some (blank_line_join a b))
   \<and> feedback (fst (handleRefine example_platform (text_provider (Some ''C'')) feedback_stage
        (example_env 0))) =
      map_option (\<lambda>prev. prev\<lparr>fullText := Some ''C''\<rparr>) (feedback feedback_stage)"
proof -
  have refined: "refineContent example_platform (text_provider (Some ''C''))
       (case feedback feedback_stage of None \<Rightarrow> [] | Some prev \<Rightarrow> or_else (fullText prev) [])
       (refinementInput feedback_stage) FeedbackKind (Some (userApiKey feedback_stage))
       (example_env 0) =
     (Inr (Some ''C''),
      (example_env 0)\<lparr>world := Suc (world (example_env 0)),
         trace := trace (example_env 0) @ [Invoke]\<rparr>)"
    by (simp add: refineContent_def text_provider_call)
  have stored: "error (fst (handleGoToFeedback example_platform
      (text_provider (Some example_payload)) feedback_stage (example_env 0))) = None"
    by (simp add: handleGoToFeedback_def example_payload_run with_fullText_def
        example_feedback_prints)
  have stage: "trim (refinementInput feedback_stage) \<noteq> []" "step feedback_stage \<noteq> Record"
    by (simp_all add: feedback_stage_def initial_state_def trim_examples)
  from fullText_joined_then_replaced
    [of example_platform "text_provider (Some example_payload)" "''# record''" None "example_env 0"
        example_feedback feedback_stage]
  have 1: "\<exists>a b. to_string example_platform (feedbackCard example_feedback) = Inr a
      \<and> to_string example_platform (healingSentence example_feedback) = Inr b
      \<and> fullText example_feedback = Some (blank_line_join a b)"
    by (simp add: example_payload_run)
  from fullText_joined_then_replaced
    [of example_platform "text_provider (Some example_payload)" "''# record''" None "example_env 0"
        example_feedback feedback_stage] stored
  have 2: "\<exists>stored a b.
        feedback (fst (handleGoToFeedback example_platform (text_provider (Some example_payload))
          feedback_stage (example_env 0))) = Some stored
      \<and> to_string example_platform (feedbackCard stored) = Inr a
      \<and> to_string example_platform (healingSentence stored) = Inr b
      \<and> fullText stored = Some (blank_line_join a b)"
    by blast
  from fullText_joined_then_replaced
    [of example_platform "text_provider (Some ''C'')" "''# record''" None "example_env 0"
        example_feedback feedback_stage "Some ''C''"] refined stage
  have 3: "feedback (fst (handleRefine example_platform (text_provider (Some ''C'')) feedback_stage
        (example_env 0))) =
      map_option (\<lambda>prev. prev\<lparr>fullText := Some ''C''\<rparr>) (feedback feedback_stage)"
    by blast
  from 1 2 3 show ?thesis by blast
qed

text \<open>
  Claim C3 as stated fails: after the refinement of the example feedback with the
  provider's answer \<^verbatim>\<open>C\<close>, the two text fields still print as \<^verbatim>\<open>A\<close> and \<^verbatim>\<open>B\<close>, and
  \<^verbatim>\<open>fullText\<close> is \<^verbatim>\<open>C\<close>, not their join.
\<close>

theorem refinement_keeps_no_join_counterexample:
  "feedback (fst (handleRefine example_platform (text_provider (Some ''C'')) feedback_stage
     (example_env 0))) = Some (example_feedback\<lparr>fullText := Some ''C''\<rparr>)
   \<and> to_string example_platform (feedbackCard (example_feedback\<lparr>fullText := Some ''C''\<rparr>)) = Inr ''A''
   \<and> to_string example_platform (healingSentence (example_feedback\<lparr>fullText := Some ''C''\<rparr>)) = Inr ''B''
   \<and> fullText (example_feedback\<lparr>fullText := Some ''C''\<rparr>) \<noteq> Some (blank_line_join ''A'' ''B'')"
  by (simp add: refine_example example_feedback_def blank_line_join_def)

subsection \<open>What a failed transition leaves behind\<close>

lemma handleGenerateRecord_failed:
  assumes "trim (input s) \<noteq> []"
    and "generateFormalRecord P provider (input s) (Some (userApiKey s)) env = (Inl err, env')"
  shows "pipeline (fst (handleGenerateRecord P provider s env)) = pipeline s"
  using assms
  by (auto simp: handleGenerateRecord_def pipeline_def Let_def split: sum.splits)

lemma handleGoToFeedback_failed:
  assumes "generateFeedbackSummary P provider (formalRecord s) (Some (userApiKey s)) env =
      (Inl err, env')"
  shows "pipeline (fst (handleGoToFeedback P provider s env)) = pipeline s"
    and "error (fst (handleGoToFeedback P provider s env)) = Some FeedbackFailedMessage"
  using assms by (simp_all add: handleGoToFeedback_def pipeline_def Let_def)

lemma handleRefine_failed:
  assumes "trim (refinementInput s) \<noteq> []"
    and "refineContent P provider
           (if step s = Record then formalRecord s
            else case feedback s of None \<Rightarrow> [] | Some fb \<Rightarrow> or_else (fullText fb) [])
           (refinementInput s) (if step s = Record then RecordKind else FeedbackKind)
           (Some (userApiKey s)) env = (Inl err, env')"
  shows "pipeline (fst (handleRefine P provider s env)) = pipeline s"
    and "error (fst (handleRefine P provider s env)) = Some RefineFailedMessage"
  using assms by (simp_all add: handleRefine_def pipeline_def Let_def)

lemma handleGoToVisual_unprintable:
  assumes "to_string P (visual_theme P s) = Inl err"
  shows "pipeline (fst (handleGoToVisual P provider s env)) = pipeline s"
    and "error (fst (handleGoToVisual P provider s env)) = Some VisualFailedMessage"
  using assms by (simp_all add: handleGoToVisual_def pipeline_def Let_def)

lemma handleGoToVisual_failed:
  assumes "to_string P (visual_theme P s) = Inr theme_text"
    and "generateCardImage P provider theme_text (Some (selectedStyle s))
           (Some (visual_prompt P s theme_text)) (Some (userApiKey s)) env = (Inl err, env')"
  shows "pipeline (fst (handleGoToVisual P provider s env)) =
       (pipeline s)\<lparr>image_prompt := Some (visual_prompt P s theme_text)\<rparr>"
    and "error (fst (handleGoToVisual P provider s env)) = Some VisualFailedMessage"
  using assms by (simp_all add: handleGoToVisual_def pipeline_def Let_def)

lemma handleRefineImage_first_failed:
  assumes "trim (imageRefinementInput s) \<noteq> []" and "truthy_text (imagePrompt s)"
    and "refineImagePrompt P provider (or_else (imagePrompt s) []) (imageRefinementInput s)
           (Some (userApiKey s)) env = (Inl err, env')"
  shows "pipeline (fst (handleRefineImage P provider s env)) = pipeline s"
    and "error (fst (handleRefineImage P provider s env)) = Some ImageRefineFailedMessage"
  using assms by (simp_all add: handleRefineImage_def pipeline_def Let_def)

lemma handleRefineImage_second_failed:
  assumes "trim (imageRefinementInput s) \<noteq> []" and "truthy_text (imagePrompt s)"
    and "refineImagePrompt P provider (or_else (imagePrompt s) []) (imageRefinementInput s)
           (Some (userApiKey s)) env = (Inr refined, env')"
    and "truthy_text refined"
    and "generateCardImage P provider [] (Some (selectedStyle s)) refined
           (Some (userApiKey s)) env' = (Inl err, env'')"
  shows "pipeline (fst (handleRefineImage P provider s env)) =
       (pipeline s)\<lparr>image_prompt := refined, card_image := None\<rparr>"
    and "error (fst (handleRefineImage P provider s env)) = Some ImageRefineFailedMessage"
  using assms by (simp_all add: handleRefineImage_def pipeline_def Let_def)

text \<open>
  Claim C1, as the code has it. A transition fails when a call of the client that its
  handler awaits is rejected, or when its handler cannot print the theme. Then:
  \<^item> after \<^verbatim>\<open>handleGenerateRecord\<close>, \<^verbatim>\<open>handleGoToFeedback\<close> and \<^verbatim>\<open>handleRefine\<close> the pipeline
    state is the one before, its stage included;
  \<^item> after \<^verbatim>\<open>handleGoToVisual\<close> it is the one before when the theme could not be printed,
    so that no prompt was built; when the call has failed, \<^verbatim>\<open>imagePrompt\<close> holds the
    prompt built for the call, which the handler stores before it calls, and every other
    field, \<^verbatim>\<open>cardImage\<close> and the stage among them, is as before;
  \<^item> after \<^verbatim>\<open>handleRefineImage\<close> it is the one before when the first call (the
    refinement of the prompt) has failed; when the second call (the image) has failed,
    \<^verbatim>\<open>imagePrompt\<close> holds the refined prompt, \<^verbatim>\<open>cardImage\<close> is cleared, and every other
    field is as before.

  But for \<^verbatim>\<open>handleGenerateRecord\<close>, whose message depends on the error, the handler
  leaves its own message in \<^verbatim>\<open>error\<close>.
\<close>

theorem failed_transition_state:
  "(trim (input s) \<noteq> []
      \<and> generateFormalRecord P provider (input s) (Some (userApiKey s)) env = (Inl err, env') \<longrightarrow>
      pipeline (fst (handleGenerateRecord P provider s env)) = pipeline s)
   \<and> (generateFeedbackSummary P provider (formalRecord s) (Some (userApiKey s)) env =
        (Inl err, env') \<longrightarrow>
      pipeline (fst (handleGoToFeedback P provider s env)) = pipeline s
      \<and> error (fst (handleGoToFeedback P provider s env)) = Some FeedbackFailedMessage)
   \<and> (trim (refinementInput s) \<noteq> []
      \<and> refineContent P provider
           (if step s = Record then formalRecord s
            else case feedback s of None \<Rightarrow> [] | Some fb \<Rightarrow> or_else (fullText fb) [])
           (refinementInput s) (if step s = Record then RecordKind else FeedbackKind)
           (Some (userApiKey s)) env = (Inl err, env') \<longrightarrow>
      pipeline (fst (handleRefine P provider s env)) = pipeline s
      \<and> error (fst (handleRefine P provider s env)) = Some RefineFailedMessage)
   \<and> (to_string P (visual_theme P s) = Inl err \<longrightarrow>
      pipeline (fst (handleGoToVisual P provider s env)) = pipeline s
      \<and> error (fst (handleGoToVisual P provider s env)) = Some VisualFailedMessage)
   \<and> (to_string P (visual_theme P s) = Inr theme_text
      \<and> generateCardImage P provider theme_text (Some (selectedStyle s))
           (Some (visual_prompt P s theme_text)) (Some (userApiKey s)) env = (Inl err, env') \<longrightarrow>
      pipeline (fst (handleGoToVisual P provider s env)) =
        (pipeline s)\<lparr>image_prompt := Some (visual_prompt P s theme_text)\<rparr>
      \<and> error (fst (handleGoToVisual P provider s env)) = Some VisualFailedMessage)
   \<and> (trim (imageRefinementInput s) \<noteq> [] \<and> truthy_text (imagePrompt s)
      \<and> refineImagePrompt P provider (or_else (imagePrompt s) []) (imageRefinementInput s)
           (Some (userApiKey s)) env = (Inl err, env') \<longrightarrow>
      pipeline (fst (handleRefineImage P provider s env)) = pipeline s
      \<and> error (fst (handleRefineImage P provider s env)) = Some ImageRefineFailedMessage)
   \<and> (trim (imageRefinementInput s) \<noteq> [] \<and> truthy_text (imagePrompt s)
      \<and> refineImagePrompt P provider (or_else (imagePrompt s) []) (imageRefinementInput s)
           (Some (userApiKey s)) env = (Inr refined, env')
      \<and> truthy_text refined
      \<and> generateCardImage P provider [] (Some (selectedStyle s)) refined
           (Some (userApiKey s)) env' = (Inl err, env'') \<longrightarrow>
      pipeline (fst (handleRefineImage P provider s env)) =
        (pipeline s)\<lparr>image_prompt := refined, card_image := None\<rparr>
      \<and> error (fst (handleRefineImage P provider s env)) = Some ImageRefineFailedMessage)"
proof (intro conjI impI; (elim conjE)?)
  assume "trim (input s) \<noteq> []"
    and "generateFormalRecord P provider (input s) (Some (userApiKey s)) env = (Inl err, env')"
  then show "pipeline (fst (handleGenerateRecord P provider s env)) = pipeline s"
    by (rule handleGenerateRecord_failed)
next
  assume call: "generateFeedbackSummary P provider (formalRecord s) (Some (userApiKey s)) env =
      (Inl err, env')"
  then show "pipeline (fst (handleGoToFeedback P provider s env)) = pipeline s"
    by (rule handleGoToFeedback_failed)
  from call show "error (fst (handleGoToFeedback P provider s env)) = Some FeedbackFailedMessage"
    by (rule handleGoToFeedback_failed)
next
  assume call: "trim (refinementInput s) \<noteq> []"
    "refineContent P provider
       (if step s = Record then formalRecord s
        else case feedback s of None \<Rightarrow> [] | Some fb \<Rightarrow> or_else (fullText fb) [])
       (refinementInput s) (if step s = Record then RecordKind else FeedbackKind)
       (Some (userApiKey s)) env = (Inl err, env')"
  then show "pipeline (fst (handleRefine P provider s env)) = pipeline s"
    by (rule handleRefine_failed)
  from call show "error (fst (handleRefine P provider s env)) = Some RefineFailedMessage"
    by (rule handleRefine_failed)
next
  assume theme: "to_string P (visual_theme P s) = Inl err"
  then show "pipeline (fst (handleGoToVisual P provider s env)) = pipeline s"
    by (rule handleGoToVisual_unprintable)
  from theme show "error (fst (handleGoToVisual P provider s env)) = Some VisualFailedMessage"
    by (rule handleGoToVisual_unprintable)
next
  assume call: "to_string P (visual_theme P s) = Inr theme_text"
    "generateCardImage P provider theme_text (Some (selectedStyle s))
       (Some (visual_prompt P s theme_text)) (Some (userApiKey s)) env = (Inl err, env')"
  then show "pipeline (fst (handleGoToVisual P provider s env)) =
      (pipeline s)\<lparr>image_prompt := Some (visual_prompt P s theme_text)\<rparr>"
    by (rule handleGoToVisual_failed)
  from call show "error (fst (handleGoToVisual P provider s env)) = Some VisualFailedMessage"
    by (rule handleGoToVisual_failed)
next
  assume call: "trim (imageRefinementInput s) \<noteq> []" "truthy_text (imagePrompt s)"
    "refineImagePrompt P provider (or_else (imagePrompt s) []) (imageRefinementInput s)
       (Some (userApiKey s)) env = (Inl err, env')"
  then show "pipeline (fst (handleRefineImage P provider s env)) = pipeline s"
    by (rule handleRefineImage_first_failed)
  from call show "error (fst (handleRefineImage P provider s env)) = Some ImageRefineFailedMessage"
    by (rule handleRefineImage_first_failed)
next
  assume call: "trim (imageRefinementInput s) \<noteq> []" "truthy_text (imagePrompt s)"
    "refineImagePrompt P provider (or_else (imagePrompt s) []) (imageRefinementInput s)
       (Some (userApiKey s)) env = (Inr refined, env')"
    "truthy_text refined"
    "generateCardImage P provider [] (Some (selectedStyle s)) refined
       (Some (userApiKey s)) env' = (Inl err, env'')"
  then show "pipeline (fst (handleRefineImage P provider s env)) =
      (pipeline s)\<lparr>image_prompt := refined, card_image := None\<rparr>"
    by (rule handleRefineImage_second_failed)
  from call show "error (fst (handleRefineImage P provider s env)) = Some ImageRefineFailedMessage"
    by (rule handleRefineImage_second_failed)
qed

lemma visual_example:
  "fst (handleGoToVisual example_platform failing_provider feedback_stage (example_env 0)) =
     feedback_stage\<lparr>isGenerating := False, error := Some VisualFailedMessage,
       imagePrompt := Some (''aspect ratio 9:16. '' @ style_auto
         @ '' The theme is: calm. Create a visual metaphor for this theme.'')\<rparr>"
  by (simp add: handleGoToVisual_def Let_def feedback_stage_def initial_state_def
      visual_theme_def visual_prompt_def example_feedback_def IMAGE_STYLES_get_def IMAGE_STYLES_def
      generateCardImage_def failing_provider_call)

lemma stage_examples:
  "trim (input (initial_state\<lparr>input := ''notes''\<rparr>)) \<noteq> []"
  "trim (refinementInput feedback_stage) \<noteq> []"
  "trim (imageRefinementInput visual_stage) \<noteq> []"
  "truthy_text (imagePrompt visual_stage)"
  "step feedback_stage \<noteq> Record"
  by (simp_all add: visual_stage_def feedback_stage_def initial_state_def trim_examples)

lemma theme_examples:
  "to_string example_platform (visual_theme example_platform feedback_stage) = Inr ''calm''"
  "visual_prompt example_platform feedback_stage ''calm'' =
     ''aspect ratio 9:16. '' @ style_auto
       @ '' The theme is: calm. Create a visual metaphor for this theme.''"
  "to_string example_platform (visual_theme example_platform unprintable_theme_stage) =
     Inl (TypeError ''Cannot convert object to primitive value'')"
  by (simp_all add: visual_theme_def visual_prompt_def unprintable_theme_stage_def
      feedback_stage_def initial_state_def example_feedback_def example_platform_def
      IMAGE_STYLES_get_def IMAGE_STYLES_def)

theorem failed_transition_state_witness:
  "pipeline (fst (handleGenerateRecord example_platform failing_provider
       (initial_state\<lparr>input := ''notes''\<rparr>) (example_env 0))) =
     pipeline (initial_state\<lparr>input := ''notes''\<rparr>)
   \<and> pipeline (fst (handleGoToFeedback example_platform failing_provider record_stage
       (example_env 0))) = pipeline record_stage
   \<and> pipeline (fst (handleRefine example_platform failing_provider feedback_stage
       (example_env 0))) = pipeline feedback_stage
   \<and> pipeline (fst (handleGoToVisual example_platform failing_provider unprintable_theme_stage
       (example_env 0))) = pipeline unprintable_theme_stage
   \<and> pipeline (fst (handleGoToVisual example_platform failing_provider feedback_stage
       (example_env 0))) =
     (pipeline feedback_stage)\<lparr>image_prompt := Some (''aspect ratio 9:16. '' @ style_auto
         @ '' The theme is: calm. Create a visual metaphor for this theme.'')\<rparr>
   \<and> pipeline (fst (handleRefineImage example_platform failing_provider visual_stage
       (example_env 0))) = pipeline visual_stage
   \<and> pipeline (fst (handleRefineImage example_platform (answer_then_fail ''a bright harbour'')
       visual_stage (example_env 0))) =
     (pipeline visual_stage)\<lparr>image_prompt := Some ''a bright harbour'', card_image := None\<rparr>"
proof -
  let ?failed = "Inl (ApiError (Some 500) None (JString ''Internal error'')) :: thrown + string option"
  let ?after = "(example_env 0)\<lparr>world := Suc (world (example_env 0)),
      trace := trace (example_env 0) @ [Invoke]\<rparr>"
  have "generateFormalRecord example_platform failing_provider
      (input (initial_state\<lparr>input := ''notes''\<rparr>))
      (Some (userApiKey (initial_state\<lparr>input := ''notes''\<rparr>))) (example_env 0) = (?failed, ?after)"
    by (simp add: generateFormalRecord_def failing_provider_call)
  with failed_transition_state
    [where s = "initial_state\<lparr>input := ''notes''\<rparr>" and P = example_platform
       and provider = failing_provider and env = "example_env 0"
       and err = "ApiError (Some 500) None (JString ''Internal error'')" and env' = ?after,
       THEN conjunct1]
    stage_examples(1)
  have 1: "pipeline (fst (handleGenerateRecord example_platform failing_provider
       (initial_state\<lparr>input := ''notes''\<rparr>) (example_env 0))) =
     pipeline (initial_state\<lparr>input := ''notes''\<rparr>)"
    by blast
  have "generateFeedbackSummary example_platform failing_provider (formalRecord record_stage)
      (Some (userApiKey record_stage)) (example_env 0) =
      (Inl (ApiError (Some 500) None (JString ''Internal error'')), ?after)"
    by (simp add: generateFeedbackSummary_def failing_provider_call)
  with failed_transition_state
    [where s = record_stage and P = example_platform
       and provider = failing_provider and env = "example_env 0"
       and err = "ApiError (Some 500) None (JString ''Internal error'')" and env' = ?after,
       THEN conjunct2, THEN conjunct1]
  have 2: "pipeline (fst (handleGoToFeedback example_platform failing_provider record_stage
       (example_env 0))) = pipeline record_stage"
    by blast
  have "refineContent example_platform failing_provider
           (if step feedback_stage = Record then formalRecord feedback_stage
            else case feedback feedback_stage of None \<Rightarrow> []
                 | Some fb \<Rightarrow> or_else (fullText fb) [])
           (refinementInput feedback_stage)
           (if step feedback_stage = Record then RecordKind else FeedbackKind)
           (Some (userApiKey feedback_stage)) (example_env 0) = (?failed, ?after)"
    by (simp add: refineContent_def failing_provider_call)
  with failed_transition_state
    [where s = feedback_stage and P = example_platform
       and provider = failing_provider and env = "example_env 0"
       and err = "ApiError (Some 500) None (JString ''Internal error'')" and env' = ?after,
       THEN conjunct2, THEN conjunct2, THEN conjunct1]
    stage_examples(2)
  have 3: "pipeline (fst (handleRefine example_platform failing_provider feedback_stage
       (example_env 0))) = pipeline feedback_stage"
    by blast
  from failed_transition_state
    [where s = unprintable_theme_stage and P = example_platform
       and provider = failing_provider and env = "example_env 0"
       and err = "TypeError ''Cannot convert object to primitive value''",
       THEN conjunct2, THEN conjunct2, THEN conjunct2, THEN conjunct1]
    theme_examples(3)
  have 4: "pipeline (fst (handleGoToVisual example_platform failing_provider
       unprintable_theme_stage (example_env 0))) = pipeline unprintable_theme_stage"
    by blast
  have "generateCardImage example_platform failing_provider ''calm''
      (Some (selectedStyle feedback_stage))
      (Some (visual_prompt example_platform feedback_stage ''calm''))
      (Some (userApiKey feedback_stage)) (example_env 0) = (?failed, ?after)"
    by (simp add: generateCardImage_def failing_provider_call)
  with failed_transition_state
    [where s = feedback_stage and P = example_platform
       and provider = failing_provider and env = "example_env 0" and theme_text = "''calm''"
       and err = "ApiError (Some 500) None (JString ''Internal error'')" and env' = ?after,
       THEN conjunct2, THEN conjunct2, THEN conjunct2, THEN conjunct2, THEN conjunct1]
    theme_examples(1)
  have "pipeline (fst (handleGoToVisual example_platform failing_provider feedback_stage
       (example_env 0))) =
     (pipeline feedback_stage)\<lparr>image_prompt :=
        Some (visual_prompt example_platform feedback_stage ''calm'')\<rparr>"
    by blast
  then have 5: "pipeline (fst (handleGoToVisual example_platform failing_provider feedback_stage
       (example_env 0))) =
     (pipeline feedback_stage)\<lparr>image_prompt := Some (''aspect ratio 9:16. '' @ style_auto
         @ '' The theme is: calm. Create a visual metaphor for this theme.'')\<rparr>"
    by (simp only: theme_examples(2))
  have "refineImagePrompt example_platform failing_provider (or_else (imagePrompt visual_stage) [])
      (imageRefinementInput visual_stage) (Some (userApiKey visual_stage)) (example_env 0) =
      (?failed, ?after)"
    by (simp add: refineImagePrompt_def failing_provider_call)
  with failed_transition_state
    [where s = visual_stage and P = example_platform
       and provider = failing_provider and env = "example_env 0"
       and err = "ApiError (Some 500) None (JString ''Internal error'')" and env' = ?after,
       THEN conjunct2, THEN conjunct2, THEN conjunct2, THEN conjunct2, THEN conjunct2, THEN conjunct1]
    stage_examples(3,4)
  have 6: "pipeline (fst (handleRefineImage example_platform failing_provider visual_stage
       (example_env 0))) = pipeline visual_stage"
    by blast
  let ?first = "(example_env 0)\<lparr>world := 1, trace := trace (example_env 0) @ [Invoke]\<rparr>"
  let ?second = "?first\<lparr>world := Suc (world ?first), trace := trace ?first @ [Invoke]\<rparr>"
  have first: "refineImagePrompt example_platform (answer_then_fail ''a bright harbour'')
      (or_else (imagePrompt visual_stage) []) (imageRefinementInput visual_stage)
      (Some (userApiKey visual_stage)) (example_env 0) = (Inr (Some ''a bright harbour''), ?first)"
    by (simp add: refineImagePrompt_def answer_then_fail_first example_env_def)
  have second: "generateCardImage example_platform (answer_then_fail ''a bright harbour'') []
      (Some (selectedStyle visual_stage)) (Some ''a bright harbour'')
      (Some (userApiKey visual_stage)) ?first = (?failed, ?second)"
    by (simp add: generateCardImage_def answer_then_fail_later)
  have "truthy_text (Some ''a bright harbour'')" by simp
  with failed_transition_state
    [where s = visual_stage and P = example_platform
       and provider = "answer_then_fail ''a bright harbour''" and env = "example_env 0"
       and refined = "Some ''a bright harbour''" and env' = ?first
       and err = "ApiError (Some 500) None (JString ''Internal error'')" and env'' = ?second,
       THEN conjunct2, THEN conjunct2, THEN conjunct2, THEN conjunct2, THEN conjunct2, THEN conjunct2]
    stage_examples(3,4) first second
  have 7: "pipeline (fst (handleRefineImage example_platform (answer_then_fail ''a bright harbour'')
       visual_stage (example_env 0))) =
     (pipeline visual_stage)\<lparr>image_prompt := Some ''a bright harbour'', card_image := None\<rparr>"
    by blast
  from 1 2 3 4 5 6 7 show ?thesis by blast
qed

text \<open>
  Claim C1 as stated fails for \<^verbatim>\<open>handleGoToVisual\<close>: from the feedback stage, where no
  image prompt is stored yet, a call that the provider fails ends with the error message
  set, the stage still \<open>Feedback\<close>, and the prompt built for the call stored in
  \<^verbatim>\<open>imagePrompt\<close>.
\<close>

theorem failed_generateVisual_stores_prompt_counterexample:
  "error (fst (handleGoToVisual example_platform failing_provider feedback_stage (example_env 0)))
     = Some VisualFailedMessage
   \<and> step (fst (handleGoToVisual example_platform failing_provider feedback_stage (example_env 0)))
     = Feedback
   \<and> imagePrompt feedback_stage = None
   \<and> imagePrompt (fst (handleGoToVisual example_platform failing_provider feedback_stage
       (example_env 0))) =
     Some (''aspect ratio 9:16. '' @ style_auto
       @ '' The theme is: calm. Create a visual metaphor for this theme.'')
   \<and> imagePrompt (fst (handleGoToVisual example_platform failing_provider feedback_stage
       (example_env 0))) \<noteq> imagePrompt feedback_stage"
  by (simp add: visual_example) (simp add: feedback_stage_def initial_state_def)

end
